theory Spec2Isabelle
  imports Complex_Main
begin

section \<open>Python values and exceptions\<close>

text \<open>
  The two pipelines of \<^verbatim>\<open>ppdiffusers\<close> verified here are
  \<^verbatim>\<open>StableDiffusionImg2ImgPipeline\<close> (pipeline_stable_diffusion_img2img.py) and
  \<^verbatim>\<open>ConsistencyModelPipeline\<close> (pipeline_consistency_models.py).
  Exceptions are values: every \<^verbatim>\<open>raise\<close> of the source is an \<open>Inl\<close> branch.
  A \<open>ValueError\<close> carries the leading words of the message of its raise site;
  \<open>FrameworkError\<close> is an exception raised inside paddle whose class the source does
  not fix.
  Python floats are modelled as the real numbers they denote and their products as exact.
\<close>

datatype exn =
    ValueError string
  | TypeError string
  | AssertionError string
  | AttributeError string
  | IndexError
  | ZeroDivisionError
  | FrameworkError string

fun is_ValueError :: "exn + 'b \<Rightarrow> bool" where
  "is_ValueError (Inl (ValueError m)) = True"
| "is_ValueError r = False"

text \<open>\<^verbatim>\<open>int(x)\<close> on a float truncates toward zero.\<close>

definition py_int :: "real \<Rightarrow> int" where
  "py_int x = (if 0 \<le> x then \<lfloor>x\<rfloor> else \<lceil>x\<rceil>)"

text \<open>\<^verbatim>\<open>a % b\<close> on ints: the sign follows the divisor, and a zero divisor raises.\<close>

definition py_mod :: "int \<Rightarrow> int \<Rightarrow> exn + int" where
  "py_mod a b = (if b = 0 then Inl ZeroDivisionError else Inr (a mod b))"

text \<open>\<^verbatim>\<open>xs[k:]\<close>: a negative start counts from the end and is clipped at the front.\<close>

definition py_slice_from :: "int \<Rightarrow> 'b list \<Rightarrow> 'b list" where
  "py_slice_from k xs =
     (if 0 \<le> k then drop (nat k) xs else drop (length xs - nat (- k)) xs)"

section \<open>The image2image timestep adapter\<close>

text \<open>
  \<^verbatim>\<open>StableDiffusionImg2ImgPipeline.get_timesteps\<close> (lines 424-430). The two reads of the
  scheduler, \<^verbatim>\<open>self.scheduler.timesteps\<close> and \<^verbatim>\<open>self.scheduler.order\<close>, are the first two
  arguments.
\<close>

definition get_timesteps :: "int list \<Rightarrow> int \<Rightarrow> int \<Rightarrow> real \<Rightarrow> int list \<times> int" where
  "get_timesteps sched_ts sched_ord num_inference_steps strength =
     (let init_timestep = min (py_int (of_int num_inference_steps * strength)) num_inference_steps;
          t_start = max (num_inference_steps - init_timestep) 0;
          timesteps = py_slice_from (t_start * sched_ord) sched_ts
      in (timesteps, num_inference_steps - t_start))"

text \<open>
  The adapter as the specification words it, with \<open>round\<close> in place of the truncation.
  \<open>round\<close> rounds a half up and Python's \<^verbatim>\<open>round\<close> to the even neighbour; away from
  the halves the two agree.
\<close>

definition spec_get_timesteps :: "int list \<Rightarrow> int \<Rightarrow> int \<Rightarrow> real \<Rightarrow> int list \<times> int" where
  "spec_get_timesteps sched_ts sched_ord num_inference_steps strength =
     (let effective_step_count = min (round (of_int num_inference_steps * strength)) num_inference_steps;
          start_index = max (num_inference_steps - effective_step_count) 0
      in (py_slice_from (start_index * sched_ord) sched_ts, num_inference_steps - start_index))"

section \<open>Tensors, generators and the trace of a run\<close>

text \<open>
  A tensor is its shape, its dtype and its elements in row-major order. The element type
  is a parameter with nothing but \<open>+\<close>, \<open>-\<close> and \<open>*\<close>, so no law of exact arithmetic
  is used. \<^verbatim>\<open>x.cast(dtype)\<close> relabels the dtype (the rounding of the elements is not
  modelled), \<^verbatim>\<open>x * c\<close> and \<^verbatim>\<open>c * x\<close> multiply every element by the scalar, \<^verbatim>\<open>x + y\<close> and
  \<^verbatim>\<open>x - y\<close> work elementwise on tensors of one shape, \<^verbatim>\<open>paddle.concat\<close> joins along the
  batch axis and \<^verbatim>\<open>x.chunk(chunks=2)\<close> splits the batch axis in two.
\<close>

datatype dtype = Float16 | BFloat16 | Float32 | Float64

record 'a tensor =
  t_shape :: "nat list"
  t_dtype :: dtype
  t_vals :: "'a list"

definition cast :: "dtype \<Rightarrow> 'a tensor \<Rightarrow> 'a tensor" where
  "cast d x = x\<lparr>t_dtype := d\<rparr>"

definition smul :: "'a::times \<Rightarrow> 'a tensor \<Rightarrow> 'a tensor" where
  "smul c x = x\<lparr>t_vals := map (\<lambda>v. c * v) (t_vals x)\<rparr>"

definition mul_scalar :: "'a::times tensor \<Rightarrow> 'a \<Rightarrow> 'a tensor" where
  "mul_scalar x c = x\<lparr>t_vals := map (\<lambda>v. v * c) (t_vals x)\<rparr>"

definition tadd :: "'a::plus tensor \<Rightarrow> 'a tensor \<Rightarrow> 'a tensor" where
  "tadd x y = x\<lparr>t_vals := map2 (+) (t_vals x) (t_vals y)\<rparr>"

definition tsub :: "'a::minus tensor \<Rightarrow> 'a tensor \<Rightarrow> 'a tensor" where
  "tsub x y = x\<lparr>t_vals := map2 (-) (t_vals x) (t_vals y)\<rparr>"

definition batch_dim :: "'a tensor \<Rightarrow> nat" where
  "batch_dim x = (case t_shape x of [] \<Rightarrow> 0 | n # ds \<Rightarrow> n)"

definition with_batch :: "nat \<Rightarrow> nat list \<Rightarrow> nat list" where
  "with_batch n sh = (case sh of [] \<Rightarrow> [] | m # ds \<Rightarrow> n # ds)"

text \<open>\<^verbatim>\<open>paddle.concat(x=[y] + ys, axis=0)\<close> of a non-empty list of tensors.\<close>

definition concat0 :: "'a tensor \<Rightarrow> 'a tensor list \<Rightarrow> 'a tensor" where
  "concat0 y ys =
     y\<lparr>t_shape := with_batch (batch_dim y + sum_list (map batch_dim ys)) (t_shape y),
       t_vals := t_vals y @ concat (map t_vals ys)\<rparr>"

text \<open>
  \<^verbatim>\<open>x.chunk(chunks=2)\<close> along the batch axis. The loop only chunks the prediction for a
  doubled batch, where both halves have the same number of rows.
\<close>

definition chunk2 :: "'a tensor \<Rightarrow> 'a tensor \<times> 'a tensor" where
  "chunk2 x =
     (let n = batch_dim x; h = (n + 1) div 2; row = length (t_vals x) div n
      in (x\<lparr>t_shape := with_batch h (t_shape x), t_vals := take (h * row) (t_vals x)\<rparr>,
          x\<lparr>t_shape := with_batch (n - h) (t_shape x), t_vals := drop (h * row) (t_vals x)\<rparr>))"

text \<open>
  A generator is an opaque handle; the \<^verbatim>\<open>generator\<close> argument is \<^verbatim>\<open>None\<close>, one generator
  or a list of them.
\<close>

type_synonym generator = nat

datatype gen_arg = NoGenerator | OneGenerator generator | GeneratorList "generator list"

text \<open>
  \<^verbatim>\<open>callback_steps\<close> is \<^verbatim>\<open>None\<close>, an \<^verbatim>\<open>int\<close> or a value of another type.
\<close>

datatype callback_steps_arg = StepsNone | StepsInt int | StepsNotInt

fun callback_steps_invalid :: "callback_steps_arg \<Rightarrow> bool" where
  "callback_steps_invalid StepsNone = True"
| "callback_steps_invalid StepsNotInt = True"
| "callback_steps_invalid (StepsInt k) = (k \<le> 0)"

fun mod_callback_steps :: "int \<Rightarrow> callback_steps_arg \<Rightarrow> exn + int" where
  "mod_callback_steps i (StepsInt k) = py_mod i k"
| "mod_callback_steps i c = Inl (TypeError ''unsupported operand type(s) for %'')"

text \<open>
  What a run does beyond returning is written down in order: every call of a
  collaborator, every log line and every callback invocation is an event.
\<close>

datatype 'a event =
    LogWarning string
  | Deprecation string
  | EncodeText
  | PreprocessImage
  | CastTensor dtype
  | VaeEncode nat
  | RandnTensor "int list"
  | RandInt
  | AddNoise
  | SetTimesteps "int option" "int list option"
  | ModelCall "'a tensor" int
  | SchedulerStep "'a tensor" int
  | ProgressBar "int option"
  | ProgressUpdate
  | CallbackCall nat int "'a tensor"
  | VaeDecode
  | SafetyCheck

text \<open>
  A run from a state \<open>'w\<close> of the collaborators (scheduler, models, generators) ends in
  the new state, the events in order, and the value returned or the exception raised.
  The collaborators themselves are functions of that state and their arguments: what
  they compute is left open, and a fault inside a collaborator is not modelled.
\<close>

type_synonym ('w, 'a, 'x) run = "'w \<times> 'a event list \<times> (exn + 'x)"

definition then_run :: "('w, 'a, 'x) run \<Rightarrow> ('w \<Rightarrow> 'x \<Rightarrow> ('w, 'a, 'y) run) \<Rightarrow> ('w, 'a, 'y) run" where
  "then_run m f =
     (case m of
        (w, es, Inl e) \<Rightarrow> (w, es, Inl e)
      | (w, es, Inr x) \<Rightarrow> (case f w x of (w', es', r) \<Rightarrow> (w', es @ es', r)))"

definition emit :: "'a event list \<Rightarrow> ('w, 'a, 'x) run \<Rightarrow> ('w, 'a, 'x) run" where
  "emit evs m = (case m of (w, es, r) \<Rightarrow> (w, evs @ es, r))"

text \<open>\<^verbatim>\<open>for i, t in enumerate(timesteps): body\<close>, from index \<open>i\<close> on.\<close>

fun run_loop :: "(nat \<Rightarrow> int \<Rightarrow> 'w \<Rightarrow> 's \<Rightarrow> ('w, 'a, 's) run) \<Rightarrow> nat \<Rightarrow> int list \<Rightarrow> 'w \<Rightarrow> 's
    \<Rightarrow> ('w, 'a, 's) run" where
  "run_loop body i [] w s = (w, [], Inr s)"
| "run_loop body i (t # ts) w s =
     (case body i t w s of
        (w1, e1, Inl x) \<Rightarrow> (w1, e1, Inl x)
      | (w1, e1, Inr s1) \<Rightarrow>
          (case run_loop body (Suc i) ts w1 s1 of (w2, e2, r) \<Rightarrow> (w2, e1 @ e2, r)))"

text \<open>The indices at which the callback was invoked, in order.\<close>

fun callback_index :: "'a event \<Rightarrow> nat option" where
  "callback_index (CallbackCall i t x) = Some i"
| "callback_index e = None"

definition callback_indices :: "'a event list \<Rightarrow> nat list" where
  "callback_indices es = List.map_filter callback_index es"

text \<open>The number of calls of the denoising model in a trace.\<close>

fun is_model_call :: "'a event \<Rightarrow> bool" where
  "is_model_call (ModelCall x t) = True"
| "is_model_call e = False"

definition model_calls :: "'a event list \<Rightarrow> nat" where
  "model_calls es = length (filter is_model_call es)"

text \<open>Events outside the loop: neither a call of the model nor of the callback.\<close>

definition quiet :: "'a event list \<Rightarrow> bool" where
  "quiet es = list_all (\<lambda>e. callback_index e = None \<and> \<not> is_model_call e) es"

text \<open>
  \<^verbatim>\<open>if callback is not None and i % callback_steps == 0: callback(i, t, latents)\<close>.
  The callback may change the state of the world; its invocation is an event.
\<close>

definition call_callback ::
  "('w \<Rightarrow> nat \<Rightarrow> int \<Rightarrow> 'a tensor \<Rightarrow> 'w) option \<Rightarrow> callback_steps_arg \<Rightarrow> nat \<Rightarrow> int \<Rightarrow> 'w
     \<Rightarrow> 'a tensor \<Rightarrow> ('w, 'a, 'a tensor) run" where
  "call_callback callback callback_steps i t w latents =
     (case callback of
        None \<Rightarrow> (w, [], Inr latents)
      | Some f \<Rightarrow>
          (case mod_callback_steps (int i) callback_steps of
             Inl e \<Rightarrow> (w, [], Inl e)
           | Inr m \<Rightarrow>
               if m = 0 then (f w i t latents, [CallbackCall i t latents], Inr latents)
               else (w, [], Inr latents)))"

section \<open>The consistency-model pipeline\<close>

text \<open>
  The collaborators of \<^verbatim>\<open>ConsistencyModelPipeline\<close>: the configuration of the U-Net, the
  U-Net itself, the scheduler (whose state lives in \<open>'w\<close>), \<^verbatim>\<open>randn_tensor\<close>,
  \<^verbatim>\<open>paddle.randint\<close> and the arithmetic \<^verbatim>\<open>(sample / 2 + 0.5).clip(min=0, max=1)\<close>.
\<close>

record ('a, 'w) cm_pipe =
  cm_sample_size :: int
  cm_in_channels :: int
  cm_num_class_embeds :: "int option"
  cm_unet_dtype :: dtype
  cm_unet :: "'w \<Rightarrow> 'a tensor \<Rightarrow> int \<Rightarrow> int list option \<Rightarrow> 'w \<times> 'a tensor"
  cm_set_timesteps :: "'w \<Rightarrow> int option \<Rightarrow> int list option \<Rightarrow> 'w"
  cm_timesteps :: "'w \<Rightarrow> int list"
  cm_init_noise_sigma :: "'w \<Rightarrow> 'a"
  cm_scale_model_input :: "'w \<Rightarrow> 'a tensor \<Rightarrow> int \<Rightarrow> 'w \<times> 'a tensor"
  cm_step :: "'w \<Rightarrow> 'a tensor \<Rightarrow> int \<Rightarrow> 'a tensor \<Rightarrow> gen_arg \<Rightarrow> 'w \<times> 'a tensor"
  cm_randn_tensor :: "'w \<Rightarrow> int list \<Rightarrow> gen_arg \<Rightarrow> dtype \<Rightarrow> 'w \<times> 'a tensor"
  cm_randint :: "'w \<Rightarrow> int \<Rightarrow> int \<Rightarrow> int \<Rightarrow> 'w \<times> int list"
  cm_denormalize :: "'a tensor \<Rightarrow> 'a tensor"

datatype class_labels_arg =
  LabelsNone | LabelsInt int | LabelsList "int list" | LabelsTensor "int list"

datatype 'a image_output = OutPd "'a tensor" | OutNp "'a tensor" | OutPil "'a tensor"

datatype 'a cm_output = ImageTuple "'a image_output" | ImagePipelineOutput "'a image_output"

text \<open>The arguments of \<^verbatim>\<open>ConsistencyModelPipeline.__call__\<close>.\<close>

record ('a, 'w) cm_args =
  cma_batch_size :: int
  cma_class_labels :: class_labels_arg
  cma_num_inference_steps :: "int option"
  cma_timesteps :: "int list option"
  cma_generator :: gen_arg
  cma_latents :: "'a tensor option"
  cma_output_type :: string
  cma_return_dict :: bool
  cma_callback :: "('w \<Rightarrow> nat \<Rightarrow> int \<Rightarrow> 'a tensor \<Rightarrow> 'w) option"
  cma_callback_steps :: callback_steps_arg

text \<open>
  The call parameters of the consistency pipeline as local variables of \<^verbatim>\<open>__call__\<close>:
  an assignment in the source is an update of this record.
\<close>

record cm_params =
  cmv_num_inference_steps :: "int option"
  cmv_batch_size :: int
  cmv_output_type :: string

text \<open>
  \<^verbatim>\<open>ConsistencyModelPipeline.prepare_latents\<close> (lines 59-77). The generator check comes
  first; the multiplication by \<^verbatim>\<open>self.scheduler.init_noise_sigma\<close> follows the
  \<^verbatim>\<open>if\<close>/\<^verbatim>\<open>else\<close> and so applies on both branches.
\<close>

definition cm_prepare_latents ::
  "('a::times, 'w) cm_pipe \<Rightarrow> 'w \<Rightarrow> int \<Rightarrow> int \<Rightarrow> int \<Rightarrow> int \<Rightarrow> dtype \<Rightarrow> gen_arg
     \<Rightarrow> 'a tensor option \<Rightarrow> ('w, 'a, 'a tensor) run" where
  "cm_prepare_latents p w batch_size num_channels height width dt generator latents =
     (let shape = [batch_size, num_channels, height, width] in
      if (case generator of GeneratorList gs \<Rightarrow> int (length gs) \<noteq> batch_size | _ \<Rightarrow> False)
      then (w, [], Inl (ValueError ''You have passed a list of generators''))
      else
        (case latents of
           None \<Rightarrow>
             (case cm_randn_tensor p w shape generator dt of
                (w1, fresh) \<Rightarrow>
                  (w1, [RandnTensor shape], Inr (mul_scalar fresh (cm_init_noise_sigma p w1))))
         | Some given \<Rightarrow>
             (w, [CastTensor dt], Inr (mul_scalar (cast dt given) (cm_init_noise_sigma p w)))))"

text \<open>\<^verbatim>\<open>ConsistencyModelPipeline.postprocess_image\<close> (lines 79-91).\<close>

definition cm_postprocess_image ::
  "('a, 'w) cm_pipe \<Rightarrow> 'a tensor \<Rightarrow> string \<Rightarrow> exn + 'a image_output" where
  "cm_postprocess_image p sample output_type =
     (if output_type \<notin> set [''pd'', ''np'', ''pil'']
      then Inl (ValueError ''output_type is not supported'')
      else
        (let sample = cm_denormalize p sample in
         if output_type = ''pd'' then Inr (OutPd sample)
         else if output_type = ''np'' then Inr (OutNp sample)
         else Inr (OutPil sample)))"

text \<open>\<^verbatim>\<open>ConsistencyModelPipeline.prepare_class_labels\<close> (lines 93-110).\<close>

definition cm_prepare_class_labels ::
  "('a, 'w) cm_pipe \<Rightarrow> 'w \<Rightarrow> int \<Rightarrow> class_labels_arg \<Rightarrow> ('w, 'a, int list option) run" where
  "cm_prepare_class_labels p w batch_size class_labels =
     (case cm_num_class_embeds p of
        Some num_class_embeds \<Rightarrow>
          (case class_labels of
             LabelsList ls \<Rightarrow> (w, [], Inr (Some ls))
           | LabelsInt c \<Rightarrow>
               if batch_size = 1 then (w, [], Inr (Some [c]))
               else (w, [], Inl (AssertionError ''Batch size must be 1 if classes is an int''))
           | LabelsNone \<Rightarrow>
               (case cm_randint p w 0 num_class_embeds batch_size of
                  (w1, ls) \<Rightarrow> (w1, [RandInt], Inr (Some ls)))
           | LabelsTensor ls \<Rightarrow> (w, [], Inr (Some ls)))
      | None \<Rightarrow> (w, [], Inr None))"

text \<open>
  \<^verbatim>\<open>ConsistencyModelPipeline.check_inputs\<close> (lines 112-132). The test
  \<^verbatim>\<open>latents.shape != expected_shape\<close> is modelled as inequality of the two sequences of
  dimensions; the Python type that paddle gives to \<^verbatim>\<open>Tensor.shape\<close> is not part of the
  source.
\<close>

definition cm_check_inputs ::
  "int option \<Rightarrow> int list option \<Rightarrow> 'a tensor option \<Rightarrow> int \<Rightarrow> int \<Rightarrow> callback_steps_arg
     \<Rightarrow> 'a event list \<times> (exn + unit)" where
  "cm_check_inputs num_inference_steps timesteps latents batch_size img_size callback_steps =
     (if num_inference_steps = None \<and> timesteps = None
      then ([], Inl (ValueError ''Exactly one of num_inference_steps or timesteps must be supplied.''))
      else
        (let warned =
           (if num_inference_steps \<noteq> None \<and> timesteps \<noteq> None
            then [LogWarning ''Both num_inference_steps and timesteps are supplied; timesteps will be used over num_inference_steps.'']
            else [])
         in
         if (case latents of
               None \<Rightarrow> False
             | Some l \<Rightarrow> map int (t_shape l) \<noteq> [batch_size, 3, img_size, img_size])
         then (warned, Inl (ValueError ''The shape of latents''))
         else if callback_steps_invalid callback_steps
         then (warned, Inl (ValueError ''callback_steps has to be a positive integer''))
         else (warned, Inr ())))"

text \<open>
  The body of the loop of \<^verbatim>\<open>ConsistencyModelPipeline.__call__\<close> (lines 207-217).
\<close>

definition cm_loop_body ::
  "('a, 'w) cm_pipe \<Rightarrow> ('w \<Rightarrow> nat \<Rightarrow> int \<Rightarrow> 'a tensor \<Rightarrow> 'w) option \<Rightarrow> callback_steps_arg
     \<Rightarrow> int list option \<Rightarrow> gen_arg \<Rightarrow> nat \<Rightarrow> int \<Rightarrow> 'w \<Rightarrow> 'a tensor \<Rightarrow> ('w, 'a, 'a tensor) run" where
  "cm_loop_body p callback callback_steps class_labels generator i t w sample =
     (case cm_scale_model_input p w sample t of
        (w1, scaled_sample) \<Rightarrow>
     (case cm_unet p w1 scaled_sample t class_labels of
        (w2, model_output) \<Rightarrow>
     (case cm_step p w2 model_output t sample generator of
        (w3, sample') \<Rightarrow>
          emit [ModelCall scaled_sample t, SchedulerStep model_output t, ProgressUpdate]
            (call_callback callback callback_steps i t w3 sample'))))"

text \<open>
  Lines 198-204 of \<^verbatim>\<open>__call__\<close>: the scheduler is configured, and the local variables
  \<^verbatim>\<open>timesteps\<close> and (with explicit timesteps) \<^verbatim>\<open>num_inference_steps\<close> are rebound.
\<close>

definition cm_set_schedule ::
  "('a, 'w) cm_pipe \<Rightarrow> 'w \<Rightarrow> int list option \<Rightarrow> cm_params
     \<Rightarrow> 'w \<times> 'a event list \<times> int list \<times> cm_params" where
  "cm_set_schedule p w timesteps v =
     (case timesteps of
        Some ts \<Rightarrow>
          (let w1 = cm_set_timesteps p w None (Some ts);
               timesteps' = cm_timesteps p w1
           in (w1, [SetTimesteps None (Some ts)], timesteps',
               v\<lparr>cmv_num_inference_steps := Some (int (length timesteps'))\<rparr>))
      | None \<Rightarrow>
          (let w1 = cm_set_timesteps p w (cmv_num_inference_steps v) None
           in (w1, [SetTimesteps (cmv_num_inference_steps v) None], cm_timesteps p w1, v)))"

text \<open>
  \<^verbatim>\<open>ConsistencyModelPipeline.__call__\<close> (lines 185-221). Beside the output, the model
  returns the call parameters as they stand when the function returns.
\<close>

definition cm_call ::
  "('a::times, 'w) cm_pipe \<Rightarrow> 'w \<Rightarrow> ('a, 'w) cm_args \<Rightarrow> ('w, 'a, 'a cm_output \<times> cm_params) run" where
  "cm_call p w a =
     (let img_size = cm_sample_size p;
          v = \<lparr>cmv_num_inference_steps = cma_num_inference_steps a,
               cmv_batch_size = cma_batch_size a,
               cmv_output_type = cma_output_type a\<rparr>
      in
      case cm_check_inputs (cmv_num_inference_steps v) (cma_timesteps a) (cma_latents a)
             (cmv_batch_size v) img_size (cma_callback_steps a) of
        (warned, Inl e) \<Rightarrow> (w, warned, Inl e)
      | (warned, Inr u) \<Rightarrow>
          emit warned
          (then_run (cm_prepare_latents p w (cmv_batch_size v) (cm_in_channels p) img_size img_size
                       (cm_unet_dtype p) (cma_generator a) (cma_latents a))
            (\<lambda>w1 sample.
          then_run (cm_prepare_class_labels p w1 (cmv_batch_size v) (cma_class_labels a))
            (\<lambda>w2 class_labels.
          case cm_set_schedule p w2 (cma_timesteps a) v of
            (w3, scheduled, timesteps, v') \<Rightarrow>
          emit (scheduled @ [ProgressBar (cmv_num_inference_steps v')])
          (then_run (run_loop (cm_loop_body p (cma_callback a) (cma_callback_steps a) class_labels
                                 (cma_generator a)) 0 timesteps w3 sample)
            (\<lambda>w4 sample'.
          case cm_postprocess_image p sample' (cmv_output_type v') of
            Inl e \<Rightarrow> (w4, [], Inl e)
          | Inr img \<Rightarrow>
              if \<not> cma_return_dict a then (w4, [], Inr (ImageTuple img, v'))
              else (w4, [], Inr (ImagePipelineOutput img, v'))))))))"

section \<open>The image2image pipeline: validation and latent preparation\<close>

text \<open>
  \<^verbatim>\<open>prompt\<close> and \<^verbatim>\<open>negative_prompt\<close> are \<^verbatim>\<open>None\<close> (\<open>None\<close> of the option), a \<^verbatim>\<open>str\<close>,
  a \<^verbatim>\<open>list\<close> or a value of another type.
\<close>

datatype prompt = PromptStr string | PromptList "string list" | PromptOther

text \<open>\<^verbatim>\<open>StableDiffusionImg2ImgPipeline.check_inputs\<close> (lines 386-422).\<close>

definition check_inputs ::
  "prompt option \<Rightarrow> real \<Rightarrow> callback_steps_arg \<Rightarrow> prompt option \<Rightarrow> 'a tensor option
     \<Rightarrow> 'a tensor option \<Rightarrow> exn + unit" where
  "check_inputs prompt strength callback_steps negative_prompt prompt_embeds negative_prompt_embeds =
     (if strength < 0 \<or> strength > 1
      then Inl (ValueError ''The value of strength should in [0.0, 1.0]'')
      else if callback_steps_invalid callback_steps
      then Inl (ValueError ''callback_steps has to be a positive integer'')
      else if prompt \<noteq> None \<and> prompt_embeds \<noteq> None
      then Inl (ValueError ''Cannot forward both prompt and prompt_embeds'')
      else if prompt = None \<and> prompt_embeds = None
      then Inl (ValueError ''Provide either prompt or prompt_embeds'')
      else if prompt = Some PromptOther
      then Inl (ValueError ''prompt has to be of type str or list'')
      else if negative_prompt \<noteq> None \<and> negative_prompt_embeds \<noteq> None
      then Inl (ValueError ''Cannot forward both negative_prompt and negative_prompt_embeds'')
      else if (case (prompt_embeds, negative_prompt_embeds) of
                 (Some pe, Some ne) \<Rightarrow> t_shape pe \<noteq> t_shape ne
               | _ \<Rightarrow> False)
      then Inl (ValueError ''prompt_embeds and negative_prompt_embeds must have the same shape'')
      else Inr ())"

text \<open>
  The collaborators of \<^verbatim>\<open>StableDiffusionImg2ImgPipeline\<close>. \<open>sd_encode_text\<close> stands for
  tokenizer and text encoder together (with the optional maximal length of the
  unconditional input), \<open>sd_preprocess\<close> and \<open>sd_postprocess\<close> for the image processor,
  \<open>sd_safety_checker\<close> for feature extractor and safety checker.
\<close>

record step_kwargs =
  kw_eta :: "real option"
  kw_generator :: "gen_arg option"

datatype 'a image_arg = ImageTensor "'a tensor" | ImagePIL | ImageList | ImageOther

record ('a, 'w) sd_pipe =
  sd_set_timesteps :: "'w \<Rightarrow> int \<Rightarrow> 'w"
  sd_timesteps :: "'w \<Rightarrow> int list"
  sd_order :: "'w \<Rightarrow> int"
  sd_scale_model_input :: "'w \<Rightarrow> 'a tensor \<Rightarrow> int \<Rightarrow> 'w \<times> 'a tensor"
  sd_add_noise :: "'w \<Rightarrow> 'a tensor \<Rightarrow> 'a tensor \<Rightarrow> int list \<Rightarrow> 'w \<times> 'a tensor"
  sd_step :: "'w \<Rightarrow> 'a tensor \<Rightarrow> int \<Rightarrow> 'a tensor \<Rightarrow> step_kwargs \<Rightarrow> 'w \<times> 'a tensor"
  sd_step_accepts_eta :: bool
  sd_step_accepts_generator :: bool
  sd_unet :: "'w \<Rightarrow> 'a tensor \<Rightarrow> int \<Rightarrow> 'a tensor \<Rightarrow> (string \<times> real) list option \<Rightarrow> 'w \<times> 'a tensor"
  sd_vae_encode_sample :: "'w \<Rightarrow> 'a tensor \<Rightarrow> generator option \<Rightarrow> 'w \<times> 'a tensor"
  sd_vae_scaling_factor :: 'a
  sd_vae_decode :: "'w \<Rightarrow> 'a tensor \<Rightarrow> 'w \<times> 'a tensor"
  sd_safety_checker :: "('w \<Rightarrow> 'a tensor \<Rightarrow> dtype \<Rightarrow> 'w \<times> 'a tensor \<times> bool list) option"
  sd_encode_text :: "'w \<Rightarrow> prompt \<Rightarrow> nat option \<Rightarrow> 'w \<times> 'a tensor"
  sd_text_encoder_dtype :: dtype
  sd_preprocess :: "'w \<Rightarrow> 'a image_arg \<Rightarrow> 'w \<times> 'a image_arg"
  sd_postprocess :: "'a tensor \<Rightarrow> string \<Rightarrow> bool list \<Rightarrow> exn + 'a image_output"
  sd_randn_tensor :: "'w \<Rightarrow> nat list \<Rightarrow> gen_arg \<Rightarrow> dtype \<Rightarrow> 'w \<times> 'a tensor"

text \<open>\<^verbatim>\<open>x.shape[0]\<close> and \<^verbatim>\<open>x.shape[1]\<close>: an index beyond the rank raises.\<close>

definition shape0 :: "'a tensor \<Rightarrow> exn + nat" where
  "shape0 x = (case t_shape x of [] \<Rightarrow> Inl IndexError | n # ds \<Rightarrow> Inr n)"

definition shape1 :: "'a tensor \<Rightarrow> exn + nat" where
  "shape1 x = (case t_shape x of n # c # ds \<Rightarrow> Inr c | _ \<Rightarrow> Inl IndexError)"

text \<open>\<^verbatim>\<open>image[i:i + 1]\<close>: the \<open>i\<close>-th row of the batch, or no row beyond the end.\<close>

definition row_slice :: "nat \<Rightarrow> 'a tensor \<Rightarrow> 'a tensor" where
  "row_slice i x =
     (let row = prod_list (tl (t_shape x)) in
      x\<lparr>t_shape := with_batch (if i < batch_dim x then 1 else 0) (t_shape x),
        t_vals := take row (drop (i * row) (t_vals x))\<rparr>)"

text \<open>
  \<^verbatim>\<open>[self.vae.encode(image[i:i + 1]).latent_dist.sample(generator[i]) for i in range(batch_size)]\<close>
  on the branch where \<^verbatim>\<open>len(generator) == batch_size\<close>: one encoding per generator.
\<close>

fun encode_each ::
  "('a, 'w) sd_pipe \<Rightarrow> 'w \<Rightarrow> 'a tensor \<Rightarrow> generator list \<Rightarrow> nat \<Rightarrow> 'w \<times> 'a tensor list" where
  "encode_each p w img [] i = (w, [])"
| "encode_each p w img (g # gs) i =
     (case sd_vae_encode_sample p w (row_slice i img) (Some g) of
        (w1, l) \<Rightarrow> (case encode_each p w1 img gs (Suc i) of (w2, ls) \<Rightarrow> (w2, l # ls)))"

text \<open>
  Lines 445-461 of \<^verbatim>\<open>prepare_latents\<close>: an image with four channels is taken as latents
  as it is; otherwise the generator list is checked and the image encoded and scaled.
  \<open>batch_size\<close> is the effective batch size \<^verbatim>\<open>batch_size * num_images_per_prompt\<close>.
\<close>

definition sd_init_latents ::
  "('a::times, 'w) sd_pipe \<Rightarrow> 'w \<Rightarrow> 'a tensor \<Rightarrow> int \<Rightarrow> gen_arg \<Rightarrow> ('w, 'a, 'a tensor) run" where
  "sd_init_latents p w img batch_size generator =
     (case shape1 img of
        Inl e \<Rightarrow> (w, [], Inl e)
      | Inr channels \<Rightarrow>
          if channels = 4 then (w, [], Inr img)
          else
            (case generator of
               GeneratorList gs \<Rightarrow>
                 if int (length gs) \<noteq> batch_size
                 then (w, [], Inl (ValueError ''You have passed a list of generators''))
                 else
                   (case encode_each p w img gs 0 of
                      (w1, []) \<Rightarrow> (w1, [], Inl (FrameworkError ''paddle.concat of an empty list''))
                    | (w1, l # ls) \<Rightarrow>
                        (w1, map (\<lambda>x. VaeEncode 1) (l # ls),
                         Inr (smul (sd_vae_scaling_factor p) (concat0 l ls))))
             | OneGenerator g \<Rightarrow>
                 (case sd_vae_encode_sample p w img (Some g) of
                    (w1, l) \<Rightarrow>
                      (w1, [VaeEncode (batch_dim img)], Inr (smul (sd_vae_scaling_factor p) l)))
             | NoGenerator \<Rightarrow>
                 (case sd_vae_encode_sample p w img None of
                    (w1, l) \<Rightarrow>
                      (w1, [VaeEncode (batch_dim img)], Inr (smul (sd_vae_scaling_factor p) l)))))"

text \<open>
  Lines 462-482 of \<^verbatim>\<open>prepare_latents\<close>: the replication of the initial latents to the
  effective batch size. \<^verbatim>\<open>[init_latents] * additional_image_per_prompt\<close> is a list of
  \<^verbatim>\<open>batch_size // init_latents.shape[0]\<close> copies.
\<close>

definition sd_expand_latents :: "int \<Rightarrow> 'a tensor \<Rightarrow> 'a event list \<times> (exn + 'a tensor)" where
  "sd_expand_latents batch_size init_latents =
     (case shape0 init_latents of
        Inl e \<Rightarrow> ([], Inl e)
      | Inr n \<Rightarrow>
          if batch_size > int n
          then
            (case py_mod batch_size (int n) of
               Inl e \<Rightarrow> ([], Inl e)
             | Inr r \<Rightarrow>
                 if r = 0
                 then
                   (let additional_image_per_prompt = batch_size div int n in
                    ([Deprecation ''len(prompt) != len(image)''],
                     Inr (concat0 init_latents
                            (replicate (nat additional_image_per_prompt - 1) init_latents))))
                 else ([], Inl (ValueError ''Cannot duplicate image'')))
          else ([], Inr (concat0 init_latents [])))"

text \<open>
  \<^verbatim>\<open>StableDiffusionImg2ImgPipeline.prepare_latents\<close> (lines 432-489). The local
  \<^verbatim>\<open>batch_size\<close> is rebound to the effective batch size on line 444.
\<close>

definition prepare_latents ::
  "('a::times, 'w) sd_pipe \<Rightarrow> 'w \<Rightarrow> 'a image_arg \<Rightarrow> int list \<Rightarrow> int \<Rightarrow> int \<Rightarrow> dtype \<Rightarrow> gen_arg
     \<Rightarrow> ('w, 'a, 'a tensor) run" where
  "prepare_latents p w img timestep batch_size num_images_per_prompt dt generator =
     (case img of
        ImageOther \<Rightarrow> (w, [], Inl (ValueError ''image has to be of type paddle.Tensor, PIL.Image.Image or list''))
      | ImagePIL \<Rightarrow> (w, [], Inl (AttributeError ''cast''))
      | ImageList \<Rightarrow> (w, [], Inl (AttributeError ''cast''))
      | ImageTensor x \<Rightarrow>
          (let x = cast dt x;
               batch_size = batch_size * num_images_per_prompt
           in
           emit [CastTensor dt]
           (then_run (sd_init_latents p w x batch_size generator)
             (\<lambda>w1 init_latents.
                case sd_expand_latents batch_size init_latents of
                  (es, Inl e) \<Rightarrow> (w1, es, Inl e)
                | (es, Inr init_latents) \<Rightarrow>
                    (case sd_randn_tensor p w1 (t_shape init_latents) generator dt of
                       (w2, noise) \<Rightarrow>
                    (case sd_add_noise p w2 init_latents noise timestep of
                       (w3, latents) \<Rightarrow>
                         (w3, es @ [RandnTensor (map int (t_shape init_latents)), AddNoise],
                          Inr latents)))))))"

section \<open>The image2image pipeline: prompt encoding, the loop and the call\<close>

text \<open>
  \<^verbatim>\<open>x.tile(repeat_times=[1, n, 1]).reshape([rows, seq_len, -1])\<close> on a tensor of rank
  three: every example of the batch is repeated \<open>n\<close> times in place.
\<close>

definition repeat_per_prompt :: "nat \<Rightarrow> nat \<Rightarrow> 'a tensor \<Rightarrow> 'a tensor" where
  "repeat_per_prompt n rows x =
     (let block = prod_list (tl (t_shape x)) in
      x\<lparr>t_shape := with_batch rows (t_shape x),
        t_vals := concat (map (\<lambda>i. concat (replicate n (take block (drop (i * block) (t_vals x)))))
                           [0..<batch_dim x])\<rparr>)"

fun same_prompt_type :: "prompt \<Rightarrow> prompt \<Rightarrow> bool" where
  "same_prompt_type (PromptStr a) (PromptStr b) = True"
| "same_prompt_type (PromptList a) (PromptList b) = True"
| "same_prompt_type PromptOther PromptOther = True"
| "same_prompt_type a b = False"

text \<open>
  Lines 284-299 of \<^verbatim>\<open>_encode_prompt\<close>: the tokens of the unconditional input. Two
  values that are neither \<^verbatim>\<open>str\<close> nor \<^verbatim>\<open>list\<close> count as of one type.
\<close>

definition uncond_tokens_of :: "prompt option \<Rightarrow> prompt option \<Rightarrow> nat \<Rightarrow> exn + prompt" where
  "uncond_tokens_of prompt negative_prompt batch_size =
     (case negative_prompt of
        None \<Rightarrow> Inr (PromptList (replicate batch_size []))
      | Some np \<Rightarrow>
          if (case prompt of None \<Rightarrow> False | Some pr \<Rightarrow> \<not> same_prompt_type pr np)
          then Inl (TypeError ''negative_prompt should be the same type to prompt'')
          else
            (case np of
               PromptStr n \<Rightarrow> Inr (PromptList [n])
             | PromptList ns \<Rightarrow>
                 if batch_size \<noteq> length ns
                 then Inl (ValueError ''negative_prompt has another batch size than prompt'')
                 else Inr (PromptList ns)
             | PromptOther \<Rightarrow> Inl (TypeError ''object has no len()'')))"

text \<open>
  \<^verbatim>\<open>StableDiffusionImg2ImgPipeline._encode_prompt\<close> (lines 203-334). Without guidance
  the result is the embedding of the prompt alone; with guidance it is the unconditional
  embedding followed by the embedding of the prompt, in one batch.
\<close>

definition encode_prompt ::
  "('a, 'w) sd_pipe \<Rightarrow> 'w \<Rightarrow> prompt option \<Rightarrow> int \<Rightarrow> bool \<Rightarrow> prompt option \<Rightarrow> 'a tensor option
     \<Rightarrow> 'a tensor option \<Rightarrow> ('w, 'a, 'a tensor) run" where
  "encode_prompt p w prompt num_images_per_prompt do_classifier_free_guidance negative_prompt
       prompt_embeds negative_prompt_embeds =
     (case (case prompt of
              Some (PromptStr s) \<Rightarrow> Inr 1
            | Some (PromptList l) \<Rightarrow> Inr (length l)
            | _ \<Rightarrow> (case prompt_embeds of
                      None \<Rightarrow> Inl (AttributeError ''shape'')
                    | Some pe \<Rightarrow> shape0 pe)) of
        Inl e \<Rightarrow> (w, [], Inl e)
      | Inr batch_size \<Rightarrow>
          then_run
            (case prompt_embeds of
               Some pe \<Rightarrow> (w, [], Inr pe)
             | None \<Rightarrow>
                 (case prompt of
                    Some pr \<Rightarrow>
                      (case sd_encode_text p w pr None of (w1, pe) \<Rightarrow> (w1, [EncodeText], Inr pe))
                  | None \<Rightarrow> (w, [], Inl (AttributeError ''shape''))))
            (\<lambda>w1 pe.
               case t_shape pe of
                 [bs_embed, seq_len, d] \<Rightarrow>
                   (let pe = repeat_per_prompt (nat num_images_per_prompt)
                               (nat (int bs_embed * num_images_per_prompt))
                               (cast (sd_text_encoder_dtype p) pe)
                    in
                    if \<not> do_classifier_free_guidance then (w1, [], Inr pe)
                    else
                      then_run
                        (case negative_prompt_embeds of
                           Some ne \<Rightarrow> (w1, [], Inr ne)
                         | None \<Rightarrow>
                             (case uncond_tokens_of prompt negative_prompt batch_size of
                                Inl e \<Rightarrow> (w1, [], Inl e)
                              | Inr uncond_tokens \<Rightarrow>
                                  (case sd_encode_text p w1 uncond_tokens (Some seq_len) of
                                     (w2, ne) \<Rightarrow> (w2, [EncodeText], Inr ne))))
                        (\<lambda>w2 ne.
                           case shape1 ne of
                             Inl e \<Rightarrow> (w2, [], Inl e)
                           | Inr seq_len' \<Rightarrow>
                               (let ne = repeat_per_prompt (nat num_images_per_prompt)
                                           (nat (int batch_size * num_images_per_prompt))
                                           (cast (sd_text_encoder_dtype p) ne)
                                in (w2, [], Inr (concat0 ne [pe])))))
               | _ \<Rightarrow> (w1, [], Inl (ValueError ''values to unpack''))))"

text \<open>\<^verbatim>\<open>prepare_extra_step_kwargs\<close> (lines 368-384).\<close>

definition prepare_extra_step_kwargs :: "('a, 'w) sd_pipe \<Rightarrow> gen_arg \<Rightarrow> real \<Rightarrow> step_kwargs" where
  "prepare_extra_step_kwargs p generator eta =
     \<lparr>kw_eta = (if sd_step_accepts_eta p then Some eta else None),
      kw_generator = (if sd_step_accepts_generator p then Some generator else None)\<rparr>"

text \<open>\<^verbatim>\<open>run_safety_checker\<close> (lines 337-352).\<close>

definition run_safety_checker ::
  "('a, 'w) sd_pipe \<Rightarrow> 'w \<Rightarrow> 'a tensor \<Rightarrow> dtype \<Rightarrow> 'w \<times> 'a event list \<times> 'a tensor \<times> bool list option" where
  "run_safety_checker p w img dt =
     (case sd_safety_checker p of
        None \<Rightarrow> (w, [], img, None)
      | Some checker \<Rightarrow>
          (case checker w img dt of
             (w1, img', has_nsfw_concept) \<Rightarrow> (w1, [SafetyCheck], img', Some has_nsfw_concept)))"

text \<open>
  Line 590: \<^verbatim>\<open>do_classifier_free_guidance = guidance_scale > 1.0\<close>.
\<close>

definition guidance_enabled :: "'a::{one,ord} \<Rightarrow> bool" where
  "guidance_enabled guidance_scale = (guidance_scale > 1)"

text \<open>
  Lines 628-629: the latents are doubled along the batch axis under guidance.
\<close>

definition latent_model_input :: "bool \<Rightarrow> 'a tensor \<Rightarrow> 'a tensor" where
  "latent_model_input do_classifier_free_guidance latents =
     (if do_classifier_free_guidance then concat0 latents [latents] else latents)"

text \<open>Lines 642-646: the two halves of the prediction are recombined under guidance.\<close>

definition perform_guidance ::
  "bool \<Rightarrow> 'a::{plus,minus,times} \<Rightarrow> 'a tensor \<Rightarrow> 'a tensor" where
  "perform_guidance do_classifier_free_guidance guidance_scale noise_pred =
     (if do_classifier_free_guidance
      then (case chunk2 noise_pred of
              (noise_pred_uncond, noise_pred_text) \<Rightarrow>
                tadd noise_pred_uncond (smul guidance_scale (tsub noise_pred_text noise_pred_uncond)))
      else noise_pred)"

text \<open>
  Lines 657-658: \<^verbatim>\<open>i == len(timesteps) - 1 or i + 1 > num_warmup_steps and (i + 1) % order == 0\<close>,
  evaluated from left to right.
\<close>

definition update_due :: "int \<Rightarrow> int \<Rightarrow> int \<Rightarrow> nat \<Rightarrow> exn + bool" where
  "update_due sched_ord len_timesteps num_warmup_steps i =
     (if int i = len_timesteps - 1 then Inr True
      else if int i + 1 > num_warmup_steps
      then (case py_mod (int i + 1) sched_ord of Inl e \<Rightarrow> Inl e | Inr r \<Rightarrow> Inr (r = 0))
      else Inr False)"

text \<open>The body of the denoising loop (lines 627-661).\<close>

definition sd_loop_body ::
  "('a::{plus,minus,times}, 'w) sd_pipe \<Rightarrow> bool \<Rightarrow> 'a \<Rightarrow> 'a tensor \<Rightarrow> (string \<times> real) list option
     \<Rightarrow> step_kwargs \<Rightarrow> int \<Rightarrow> int \<Rightarrow> ('w \<Rightarrow> nat \<Rightarrow> int \<Rightarrow> 'a tensor \<Rightarrow> 'w) option
     \<Rightarrow> callback_steps_arg \<Rightarrow> nat \<Rightarrow> int \<Rightarrow> 'w \<Rightarrow> 'a tensor \<Rightarrow> ('w, 'a, 'a tensor) run" where
  "sd_loop_body p do_classifier_free_guidance guidance_scale prompt_embeds cross_attention_kwargs
       extra_step_kwargs len_timesteps num_warmup_steps callback callback_steps i t w latents =
     (case sd_scale_model_input p w (latent_model_input do_classifier_free_guidance latents) t of
        (w1, model_input) \<Rightarrow>
     (case sd_unet p w1 model_input t prompt_embeds cross_attention_kwargs of
        (w2, noise_pred) \<Rightarrow>
     (let noise_pred' = perform_guidance do_classifier_free_guidance guidance_scale noise_pred in
      case sd_step p w2 noise_pred' t latents extra_step_kwargs of
        (w3, latents') \<Rightarrow>
          emit [ModelCall model_input t, SchedulerStep noise_pred' t]
            (case update_due (sd_order p w3) len_timesteps num_warmup_steps i of
               Inl e \<Rightarrow> (w3, [], Inl e)
             | Inr due \<Rightarrow>
                 if due
                 then emit [ProgressUpdate] (call_callback callback callback_steps i t w3 latents')
                 else (w3, [], Inr latents')))))"

text \<open>The arguments of \<^verbatim>\<open>StableDiffusionImg2ImgPipeline.__call__\<close>.\<close>

record ('a, 'w) sd_args =
  sda_prompt :: "prompt option"
  sda_image :: "'a image_arg"
  sda_strength :: real
  sda_num_inference_steps :: int
  sda_guidance_scale :: 'a
  sda_negative_prompt :: "prompt option"
  sda_num_images_per_prompt :: int
  sda_eta :: real
  sda_generator :: gen_arg
  sda_prompt_embeds :: "'a tensor option"
  sda_negative_prompt_embeds :: "'a tensor option"
  sda_output_type :: string
  sda_return_dict :: bool
  sda_callback :: "('w \<Rightarrow> nat \<Rightarrow> int \<Rightarrow> 'a tensor \<Rightarrow> 'w) option"
  sda_callback_steps :: callback_steps_arg
  sda_cross_attention_kwargs :: "(string \<times> real) list option"

text \<open>
  The call parameters of the image2image pipeline as local variables of \<^verbatim>\<open>__call__\<close>:
  an assignment in the source is an update of this record.
\<close>

record 'a sd_params =
  sdv_strength :: real
  sdv_num_inference_steps :: int
  sdv_guidance_scale :: 'a
  sdv_batch_size :: int
  sdv_output_type :: string

datatype 'a sd_output =
    OutputTuple "'a image_output" "bool list option"
  | StableDiffusionPipelineOutput "'a image_output" "bool list option"

definition div_scalar :: "'a::inverse tensor \<Rightarrow> 'a \<Rightarrow> 'a tensor" where
  "div_scalar x c = x\<lparr>t_vals := map (\<lambda>v. v / c) (t_vals x)\<rparr>"

text \<open>Lines 580-585: the batch size is read off the prompt or the embeddings.\<close>

definition call_batch_size :: "prompt option \<Rightarrow> 'a tensor option \<Rightarrow> exn + int" where
  "call_batch_size prompt prompt_embeds =
     (case prompt of
        Some (PromptStr s) \<Rightarrow> Inr 1
      | Some (PromptList l) \<Rightarrow> Inr (int (length l))
      | _ \<Rightarrow> (case prompt_embeds of
                None \<Rightarrow> Inl (AttributeError ''shape'')
              | Some pe \<Rightarrow> (case shape0 pe of Inl e \<Rightarrow> Inl e | Inr n \<Rightarrow> Inr (int n))))"

text \<open>Lines 662-679: decoding, safety check and conversion of the final latents.\<close>

definition sd_finish ::
  "('a::inverse, 'w) sd_pipe \<Rightarrow> 'w \<Rightarrow> 'a tensor \<Rightarrow> dtype \<Rightarrow> string \<Rightarrow> bool
     \<Rightarrow> ('w, 'a, 'a sd_output) run" where
  "sd_finish p w latents dt output_type return_dict =
     (case (if \<not> output_type = ''latent''
            then (case sd_vae_decode p w (div_scalar latents (sd_vae_scaling_factor p)) of
                    (w1, decoded) \<Rightarrow>
                      (case run_safety_checker p w1 decoded dt of
                         (w2, es, img, has_nsfw_concept) \<Rightarrow> (w2, VaeDecode # es, img, has_nsfw_concept)))
            else (w, [], latents, None)) of
        (w2, es, img, has_nsfw_concept) \<Rightarrow>
          (case (case has_nsfw_concept of
                   None \<Rightarrow> (case shape0 img of
                              Inl e \<Rightarrow> Inl e
                            | Inr n \<Rightarrow> Inr (replicate n True))
                 | Some flags \<Rightarrow> Inr (map (\<lambda>has_nsfw. \<not> has_nsfw) flags)) of
             Inl e \<Rightarrow> (w2, es, Inl e)
           | Inr do_denormalize \<Rightarrow>
               (case sd_postprocess p img output_type do_denormalize of
                  Inl e \<Rightarrow> (w2, es, Inl e)
                | Inr out \<Rightarrow>
                    if \<not> return_dict then (w2, es, Inr (OutputTuple out has_nsfw_concept))
                    else (w2, es, Inr (StableDiffusionPipelineOutput out has_nsfw_concept)))))"

text \<open>
  \<^verbatim>\<open>StableDiffusionImg2ImgPipeline.__call__\<close> (lines 575-679). Beside the output, the
  model returns the call parameters as they stand when the function returns.
  \<^verbatim>\<open>num_inference_steps\<close> is an \<^verbatim>\<open>int\<close>; the LoRA scale read from
  \<^verbatim>\<open>cross_attention_kwargs\<close> only sets an attribute of the pipeline and is left out.
\<close>

definition sd_call ::
  "('a::{one,ord,plus,minus,times,inverse}, 'w) sd_pipe \<Rightarrow> 'w \<Rightarrow> ('a, 'w) sd_args
     \<Rightarrow> ('w, 'a, 'a sd_output \<times> 'a sd_params) run" where
  "sd_call p w a =
     (case check_inputs (sda_prompt a) (sda_strength a) (sda_callback_steps a) (sda_negative_prompt a)
             (sda_prompt_embeds a) (sda_negative_prompt_embeds a) of
        Inl e \<Rightarrow> (w, [], Inl e)
      | Inr u \<Rightarrow>
     (case call_batch_size (sda_prompt a) (sda_prompt_embeds a) of
        Inl e \<Rightarrow> (w, [], Inl e)
      | Inr batch_size \<Rightarrow>
     (let v = \<lparr>sdv_strength = sda_strength a,
               sdv_num_inference_steps = sda_num_inference_steps a,
               sdv_guidance_scale = sda_guidance_scale a,
               sdv_batch_size = batch_size,
               sdv_output_type = sda_output_type a\<rparr>;
          do_classifier_free_guidance = guidance_enabled (sdv_guidance_scale v)
      in
      then_run (encode_prompt p w (sda_prompt a) (sda_num_images_per_prompt a)
                  do_classifier_free_guidance (sda_negative_prompt a) (sda_prompt_embeds a)
                  (sda_negative_prompt_embeds a))
        (\<lambda>w1 prompt_embeds.
      case sd_preprocess p w1 (sda_image a) of
        (w2, img) \<Rightarrow>
     (let w3 = sd_set_timesteps p w2 (sdv_num_inference_steps v) in
      case get_timesteps (sd_timesteps p w3) (sd_order p w3) (sdv_num_inference_steps v)
             (sdv_strength v) of
        (timesteps, remaining) \<Rightarrow>
     (let v' = v\<lparr>sdv_num_inference_steps := remaining\<rparr>;
          latent_timestep =
            concat (replicate (nat (sdv_batch_size v' * sda_num_images_per_prompt a)) (take 1 timesteps))
      in
      emit [PreprocessImage, SetTimesteps (Some (sdv_num_inference_steps v)) None]
      (then_run (prepare_latents p w3 img latent_timestep (sdv_batch_size v')
                   (sda_num_images_per_prompt a) (t_dtype prompt_embeds) (sda_generator a))
        (\<lambda>w4 latents.
     (let extra_step_kwargs = prepare_extra_step_kwargs p (sda_generator a) (sda_eta a);
          num_warmup_steps = int (length timesteps) - sdv_num_inference_steps v' * sd_order p w4
      in
      emit [ProgressBar (Some (sdv_num_inference_steps v'))]
      (then_run (run_loop (sd_loop_body p do_classifier_free_guidance (sdv_guidance_scale v')
                             prompt_embeds (sda_cross_attention_kwargs a) extra_step_kwargs
                             (int (length timesteps)) num_warmup_steps (sda_callback a)
                             (sda_callback_steps a)) 0 timesteps w4 latents)
        (\<lambda>w5 latents'.
      then_run (sd_finish p w5 latents' (t_dtype prompt_embeds) (sdv_output_type v')
                  (sda_return_dict a))
        (\<lambda>w6 out. (w6, [], Inr (out, v'))))))))))))))"

section \<open>Stand-ins for the collaborators\<close>

text \<open>
  Stand-ins for models and schedulers, for running the pipelines on concrete inputs.
  The state of the world is the scheduler's timestep sequence. The models return their
  input, the scheduler of the consistency pipeline takes an explicit list as it is and
  otherwise counts down from \<open>n - 1\<close>, the scheduler of the image2image pipeline has
  \<open>n * order\<close> timesteps, and random tensors are filled with zeros.
\<close>

definition zeros :: "nat list \<Rightarrow> dtype \<Rightarrow> real tensor" where
  "zeros sh d = \<lparr>t_shape = sh, t_dtype = d, t_vals = replicate (prod_list sh) 0\<rparr>"

definition countdown :: "int \<Rightarrow> int list" where
  "countdown n = rev (map int [0..<nat n])"

definition stub_cm_pipe :: "int \<Rightarrow> (real, int list) cm_pipe" where
  "stub_cm_pipe channels =
     \<lparr>cm_sample_size = 1,
      cm_in_channels = channels,
      cm_num_class_embeds = None,
      cm_unet_dtype = Float32,
      cm_unet = (\<lambda>w x t c. (w, x)),
      cm_set_timesteps =
        (\<lambda>w n ts. case ts of Some l \<Rightarrow> l
                   | None \<Rightarrow> (case n of Some k \<Rightarrow> countdown k | None \<Rightarrow> [])),
      cm_timesteps = (\<lambda>w. w),
      cm_init_noise_sigma = (\<lambda>w. 80),
      cm_scale_model_input = (\<lambda>w x t. (w, x)),
      cm_step = (\<lambda>w m t s g. (w, m)),
      cm_randn_tensor = (\<lambda>w sh g d. (w, zeros (map nat sh) d)),
      cm_randint = (\<lambda>w lo hi n. (w, replicate (nat n) lo)),
      cm_denormalize = (\<lambda>x. x)\<rparr>"

definition stub_cm_args :: "(real, int list) cm_args" where
  "stub_cm_args =
     \<lparr>cma_batch_size = 1,
      cma_class_labels = LabelsNone,
      cma_num_inference_steps = Some 1,
      cma_timesteps = None,
      cma_generator = NoGenerator,
      cma_latents = None,
      cma_output_type = ''pil'',
      cma_return_dict = True,
      cma_callback = None,
      cma_callback_steps = StepsInt 1\<rparr>"

definition stub_sd_pipe :: "int \<Rightarrow> (real, int list) sd_pipe" where
  "stub_sd_pipe ord =
     \<lparr>sd_set_timesteps = (\<lambda>w n. countdown (n * ord)),
      sd_timesteps = (\<lambda>w. w),
      sd_order = (\<lambda>w. ord),
      sd_scale_model_input = (\<lambda>w x t. (w, x)),
      sd_add_noise = (\<lambda>w x noise t. (w, tadd x noise)),
      sd_step = (\<lambda>w pred t latents kw. (w, tsub latents pred)),
      sd_step_accepts_eta = True,
      sd_step_accepts_generator = True,
      sd_unet = (\<lambda>w x t emb kw. (w, x)),
      sd_vae_encode_sample = (\<lambda>w x g. (w, zeros [batch_dim x, 4, 1, 1] (t_dtype x))),
      sd_vae_scaling_factor = 1 / 2,
      sd_vae_decode = (\<lambda>w x. (w, x)),
      sd_safety_checker = None,
      sd_encode_text =
        (\<lambda>w pr n. (w, zeros [case pr of PromptList l \<Rightarrow> length l | _ \<Rightarrow> 1, 1, 1] Float32)),
      sd_text_encoder_dtype = Float32,
      sd_preprocess = (\<lambda>w x. (w, x)),
      sd_postprocess =
        (\<lambda>x ot flags. if ot \<in> set [''latent'', ''pd'', ''np'', ''pil'']
                       then Inr (OutPd x) else Inl (ValueError ''output_type'')),
      sd_randn_tensor = (\<lambda>w sh g d. (w, zeros sh d))\<rparr>"

text \<open>One image of one pixel, given as a tensor with three channels.\<close>

definition stub_image :: "real tensor" where
  "stub_image = \<lparr>t_shape = [1, 3, 1, 1], t_dtype = Float32, t_vals = [1, 2, 3]\<rparr>"

definition stub_sd_args :: "(real, int list) sd_args" where
  "stub_sd_args =
     \<lparr>sda_prompt = Some (PromptStr ''a landscape''),
      sda_image = ImageTensor stub_image,
      sda_strength = 1 / 2,
      sda_num_inference_steps = 4,
      sda_guidance_scale = 15 / 2,
      sda_negative_prompt = None,
      sda_num_images_per_prompt = 1,
      sda_eta = 0,
      sda_generator = NoGenerator,
      sda_prompt_embeds = None,
      sda_negative_prompt_embeds = None,
      sda_output_type = ''latent'',
      sda_return_dict = True,
      sda_callback = None,
      sda_callback_steps = StepsInt 1,
      sda_cross_attention_kwargs = None\<rparr>"

section \<open>Properties of the timestep adapter\<close>

lemma py_int_nonneg: "0 \<le> x \<Longrightarrow> py_int x = \<lfloor>x\<rfloor>"
  by (simp add: py_int_def)

lemma floor_scaled_bounds:
  fixes s :: real
  assumes "0 \<le> s" "s \<le> 1" "0 < n"
  shows "0 \<le> \<lfloor>of_int n * s\<rfloor>" and "\<lfloor>of_int n * s\<rfloor> \<le> n"
proof -
  have nn: "(0::real) \<le> of_int n" using assms(3) by simp
  have "0 \<le> of_int n * s" using nn assms(1) by (rule mult_nonneg_nonneg)
  then show "0 \<le> \<lfloor>of_int n * s\<rfloor>" by simp
  have "of_int n * s \<le> of_int n * 1" using assms(2) nn by (rule mult_left_mono)
  then have "of_int n * s \<le> of_int n" by simp
  then have "\<lfloor>of_int n * s\<rfloor> \<le> \<lfloor>(of_int n)::real\<rfloor>" by (rule floor_mono)
  then show "\<lfloor>of_int n * s\<rfloor> \<le> n" by simp
qed




section \<open>Input validation of the image2image pipeline\<close>

lemma is_ValueError_iff: "is_ValueError r \<longleftrightarrow> (\<exists>m. r = Inl (ValueError m))"
  by (cases r rule: is_ValueError.cases) auto

text \<open>
  C7. When both \<^verbatim>\<open>prompt\<close> and \<^verbatim>\<open>prompt_embeds\<close> are supplied, or neither is,
  \<^verbatim>\<open>check_inputs\<close> raises a \<open>ValueError\<close>, and \<^verbatim>\<open>__call__\<close> ends with that error
  with no event and the state of the world untouched: no model, encoder or scheduler
  has been invoked.
\<close>

theorem check_inputs_prompt_exclusive:
  assumes "(sda_prompt a \<noteq> None \<and> sda_prompt_embeds a \<noteq> None)
         \<or> (sda_prompt a = None \<and> sda_prompt_embeds a = None)"
  shows "is_ValueError (check_inputs (sda_prompt a) (sda_strength a) (sda_callback_steps a)
            (sda_negative_prompt a) (sda_prompt_embeds a) (sda_negative_prompt_embeds a))
       \<and> (\<exists>m. sd_call p w a = (w, [], Inl (ValueError m)))"
proof -
  let ?c = "check_inputs (sda_prompt a) (sda_strength a) (sda_callback_steps a)
            (sda_negative_prompt a) (sda_prompt_embeds a) (sda_negative_prompt_embeds a)"
  have v: "is_ValueError ?c"
    using assms by (auto simp: check_inputs_def)
  then obtain m where m: "?c = Inl (ValueError m)"
    by (auto simp: is_ValueError_iff)
  have "sd_call p w a = (w, [], Inl (ValueError m))"
    by (simp add: sd_call_def m)
  with v show ?thesis by blast
qed

theorem check_inputs_prompt_exclusive_witness:
  "is_ValueError (check_inputs (Some (PromptStr ''a landscape'')) (1 / 2) (StepsInt 1) None
       (Some (zeros [1, 1, 1] Float32)) None)
   \<and> (\<exists>m. sd_call (stub_sd_pipe 1) []
            (stub_sd_args\<lparr>sda_prompt_embeds := Some (zeros [1, 1, 1] Float32)\<rparr>)
          = ([], [], Inl (ValueError m)))"
  using check_inputs_prompt_exclusive
    [of "stub_sd_args\<lparr>sda_prompt_embeds := Some (zeros [1, 1, 1] Float32)\<rparr>" "stub_sd_pipe 1" "[]"]
  by (simp add: stub_sd_args_def)

section \<open>Sequencing of runs\<close>

lemma then_run_Inl [simp]: "then_run (w, es, Inl e) f = (w, es, Inl e)"
  by (simp add: then_run_def)

lemma then_run_Inr [simp]:
  "then_run (w, es, Inr x) f = emit es (f w x)"
  by (simp add: then_run_def emit_def split: prod.splits)

lemma emit_Nil [simp]: "emit [] m = m"
  by (simp add: emit_def split: prod.splits)

lemma emit_tuple [simp]: "emit evs (w, es, r) = (w, evs @ es, r)"
  by (simp add: emit_def)

lemma emit_emit [simp]: "emit a (emit b m) = emit (a @ b) m"
  by (simp add: emit_def split: prod.splits)

lemma events_emit: "fst (snd (emit es m)) = es @ fst (snd m)"
  by (cases m) (simp add: emit_def)

section \<open>Latents of the consistency pipeline\<close>

lemma cm_check_inputs_wrong_channels:
  assumes "c \<noteq> 3" and "map int (t_shape l) = [b, c, s, s]"
  shows "\<exists>es m. cm_check_inputs nis ts (Some l) b s cbs = (es, Inl (ValueError m))"
  using assms by (simp add: cm_check_inputs_def Let_def)

lemma cm_prepare_latents_fresh:
  assumes "\<not> (case g of GeneratorList gs \<Rightarrow> int (length gs) \<noteq> b | _ \<Rightarrow> False)"
    and "cm_randn_tensor p w [b, c, h, wd] g dt = (w1, fresh)"
  shows "cm_prepare_latents p w b c h wd dt g None
       = (w1, [RandnTensor [b, c, h, wd]], Inr (mul_scalar fresh (cm_init_noise_sigma p w1)))"
  using assms by (simp add: cm_prepare_latents_def Let_def)




section \<open>Latent preparation\<close>

text \<open>
  C2, as the code has it. When the caller supplies latents (and no generator list of a
  wrong length), \<^verbatim>\<open>prepare_latents\<close> of the consistency pipeline casts them to the target
  dtype and then multiplies them by the scheduler's \<^verbatim>\<open>init_noise_sigma\<close>: shape kept,
  every element scaled. It samples nothing (the world is unchanged and the only event is
  the cast), so no noise is added. The same scaling is applied to freshly sampled noise.
\<close>

theorem cm_prepare_latents_scales_both:
  assumes "\<not> (case g of GeneratorList gs \<Rightarrow> int (length gs) \<noteq> b | _ \<Rightarrow> False)"
  shows "cm_prepare_latents p w b c h wd dt g (Some given)
           = (w, [CastTensor dt], Inr (mul_scalar (cast dt given) (cm_init_noise_sigma p w)))
       \<and> t_shape (mul_scalar (cast dt given) (cm_init_noise_sigma p w)) = t_shape given
       \<and> t_dtype (mul_scalar (cast dt given) (cm_init_noise_sigma p w)) = dt
       \<and> t_vals (mul_scalar (cast dt given) (cm_init_noise_sigma p w))
           = map (\<lambda>v. v * cm_init_noise_sigma p w) (t_vals given)
       \<and> cm_prepare_latents p w b c h wd dt g None
           = (fst (cm_randn_tensor p w [b, c, h, wd] g dt), [RandnTensor [b, c, h, wd]],
              Inr (mul_scalar (snd (cm_randn_tensor p w [b, c, h, wd] g dt))
                     (cm_init_noise_sigma p (fst (cm_randn_tensor p w [b, c, h, wd] g dt)))))"
  using assms
  by (simp add: cm_prepare_latents_def Let_def mul_scalar_def cast_def split: prod.splits)

theorem cm_prepare_latents_scales_both_witness:
  "cm_prepare_latents (stub_cm_pipe 3) [] 1 3 1 1 Float32 (GeneratorList [7])
      (Some \<lparr>t_shape = [1, 3, 1, 1], t_dtype = Float64, t_vals = [1, 2, 3]\<rparr>)
    = ([], [CastTensor Float32],
       Inr \<lparr>t_shape = [1, 3, 1, 1], t_dtype = Float32, t_vals = [80, 160, 240]\<rparr>)"
  using cm_prepare_latents_scales_both
    [where g = "GeneratorList [7]" and b = 1 and p = "stub_cm_pipe 3" and w = "[]" and c = 3
       and h = 1 and wd = 1 and dt = Float32
       and given = "\<lparr>t_shape = [1, 3, 1, 1], t_dtype = Float64, t_vals = [1, 2, 3]\<rparr>"]
  by (simp add: stub_cm_pipe_def mul_scalar_def cast_def)

text \<open>
  The claim that supplied latents are only cast fails: with \<^verbatim>\<open>init_noise_sigma = 80\<close>
  the supplied values 1, 2, 3 come back as 80, 160, 240.
\<close>

theorem cm_prepare_latents_only_cast_counterexample:
  "snd (snd (cm_prepare_latents (stub_cm_pipe 3) [] 1 3 1 1 Float32 NoGenerator
      (Some \<lparr>t_shape = [1, 3, 1, 1], t_dtype = Float64, t_vals = [1, 2, 3]\<rparr>)))
    = Inr \<lparr>t_shape = [1, 3, 1, 1], t_dtype = Float32, t_vals = [80, 160, 240]\<rparr>
   \<and> cast Float32 \<lparr>t_shape = [1, 3, 1, 1], t_dtype = Float64, t_vals = [1, 2, 3::real]\<rparr>
    = \<lparr>t_shape = [1, 3, 1, 1], t_dtype = Float32, t_vals = [1, 2, 3]\<rparr>"
  by (simp add: cm_prepare_latents_def stub_cm_pipe_def mul_scalar_def cast_def)

lemma shape1_cast [simp]: "shape1 (cast d x) = shape1 x"
  by (simp add: shape1_def cast_def)

text \<open>
  C9, as the code has it. A generator list whose length differs from the effective batch
  size makes \<^verbatim>\<open>prepare_latents\<close> of the consistency pipeline raise a \<open>ValueError\<close> with
  no event at all, and \<^verbatim>\<open>prepare_latents\<close> of the image2image pipeline raise it when the
  image does not have four channels, after the cast of the image and before any encoding
  or sampling.
\<close>

theorem generator_list_checked_before_sampling:
  assumes "int (length gs) \<noteq> b"
  shows "cm_prepare_latents p w b c h wd dt (GeneratorList gs) latents
           = (w, [], Inl (ValueError ''You have passed a list of generators''))
       \<and> (shape1 x = Inr ch \<and> ch \<noteq> 4 \<and> batch_size * num_images_per_prompt = b \<longrightarrow>
            prepare_latents q u (ImageTensor x) ts batch_size num_images_per_prompt dt' (GeneratorList gs)
              = (u, [CastTensor dt'], Inl (ValueError ''You have passed a list of generators'')))"
  using assms
  by (auto simp: cm_prepare_latents_def prepare_latents_def sd_init_latents_def Let_def)

theorem generator_list_checked_before_sampling_witness:
  "cm_prepare_latents (stub_cm_pipe 3) [] 1 3 1 1 Float32 (GeneratorList [7, 8]) None
      = ([], [], Inl (ValueError ''You have passed a list of generators''))
   \<and> prepare_latents (stub_sd_pipe 1) [] (ImageTensor stub_image) [1] 1 1 Float32 (GeneratorList [7, 8])
      = ([], [CastTensor Float32], Inl (ValueError ''You have passed a list of generators''))"
  using generator_list_checked_before_sampling
    [where gs = "[7, 8]" and b = 1 and p = "stub_cm_pipe 3" and w = "[]" and c = 3 and h = 1
       and wd = 1 and dt = Float32 and latents = None and x = stub_image and ch = 3
       and batch_size = 1 and num_images_per_prompt = 1 and q = "stub_sd_pipe 1" and u = "[]"
       and ts = "[1]" and dt' = Float32]
  by (simp add: stub_image_def shape1_def)

text \<open>
  An image that already has four channels is taken as latents and the generator list is
  not checked: two generators for an effective batch size of one raise nothing.
\<close>

theorem generator_list_unchecked_counterexample:
  "prepare_latents (stub_sd_pipe 1) []
      (ImageTensor \<lparr>t_shape = [1, 4, 1, 1], t_dtype = Float32, t_vals = [1, 2, 3, 4]\<rparr>)
      [1] 1 1 Float32 (GeneratorList [7, 8])
    = ([], [CastTensor Float32, RandnTensor [1, 4, 1, 1], AddNoise],
       Inr \<lparr>t_shape = [1, 4, 1, 1], t_dtype = Float32, t_vals = [1, 2, 3, 4]\<rparr>)"
  by code_simp

lemma batch_dim_replicated:
  assumes "shape0 x = Inr n"
  shows "batch_dim (concat0 x (replicate k x)) = n * Suc k"
  using assms
  by (cases "t_shape x") (simp_all add: shape0_def concat0_def batch_dim_def with_batch_def sum_list_replicate)

lemma sd_expand_latents_multiple:
  assumes "shape0 init = Inr n" and "0 < n" and "int n < b" and "int n dvd b"
  shows "sd_expand_latents b init
           = ([Deprecation ''len(prompt) != len(image)''],
              Inr (concat0 init (replicate (nat (b div int n) - 1) init)))"
    and "int (batch_dim (concat0 init (replicate (nat (b div int n) - 1) init))) = b"
proof -
  have m: "b mod int n = 0" using assms(4) by simp
  show "sd_expand_latents b init
           = ([Deprecation ''len(prompt) != len(image)''],
              Inr (concat0 init (replicate (nat (b div int n) - 1) init)))"
    using assms(1,2,3) m by (simp add: sd_expand_latents_def py_mod_def Let_def)
  have q: "b = int n * (b div int n)" using m by auto
  have "0 < b div int n"
    using assms(2,3) q by (metis of_nat_0_less_iff less_trans zero_less_mult_pos)
  then have "Suc (nat (b div int n) - 1) = nat (b div int n)" by simp
  then have "int (n * Suc (nat (b div int n) - 1)) = int n * (b div int n)"
    using \<open>0 < b div int n\<close> by simp
  then show "int (batch_dim (concat0 init (replicate (nat (b div int n) - 1) init))) = b"
    using q by (simp add: batch_dim_replicated [OF assms(1)])
qed

lemma sd_expand_latents_no_multiple:
  assumes "shape0 init = Inr n" and "0 < n" and "int n < b" and "\<not> int n dvd b"
  shows "sd_expand_latents b init = ([], Inl (ValueError ''Cannot duplicate image''))"
proof -
  have m: "b mod int n \<noteq> 0" using assms(4) by (simp add: dvd_eq_mod_eq_0)
  show ?thesis
    using assms(1,2,3) m by (simp add: sd_expand_latents_def py_mod_def Let_def)
qed


lemma sd_expand_latents_empty_batch:
  assumes "shape0 init = Inr 0" and "0 < b"
  shows "sd_expand_latents b init = ([], Inl ZeroDivisionError)"
  using assms by (simp add: sd_expand_latents_def py_mod_def)

text \<open>
  C8. Let the encoded source latents have \<open>n\<close> rows, \<open>n\<close> at least one (with no row
  at all the modulus raises \<open>ZeroDivisionError\<close>, see \<open>sd_expand_latents_empty_batch\<close>),
  and let the effective batch size \<^verbatim>\<open>batch_size * num_images_per_prompt\<close> exceed \<open>n\<close>.
  Then the latents are replicated if and only if the effective batch size is a multiple
  of \<open>n\<close>; if it is, \<^verbatim>\<open>prepare_latents\<close> succeeds and, with a scheduler whose
  \<^verbatim>\<open>add_noise\<close> keeps the shape, the batch dimension of its result is the effective batch
  size; if it is not, \<^verbatim>\<open>prepare_latents\<close> raises a \<open>ValueError\<close>.
\<close>

theorem prepare_latents_replicates_exact_multiples:
  assumes init: "sd_init_latents q w (cast dt x) (batch_size * num_images_per_prompt) g = (w1, es, Inr init)"
    and n: "shape0 init = Inr n" "0 < n" "int n < batch_size * num_images_per_prompt"
    and shape_kept: "\<forall>u y noise t. t_shape (snd (sd_add_noise q u y noise t)) = t_shape y"
  shows "((\<exists>r. snd (sd_expand_latents (batch_size * num_images_per_prompt) init) = Inr r)
            \<longleftrightarrow> int n dvd batch_size * num_images_per_prompt)
       \<and> (int n dvd batch_size * num_images_per_prompt \<longrightarrow>
            snd (sd_expand_latents (batch_size * num_images_per_prompt) init)
              = Inr (concat0 init
                      (replicate (nat (batch_size * num_images_per_prompt div int n) - 1) init))
          \<and> (\<exists>w3 evs latents.
                prepare_latents q w (ImageTensor x) ts batch_size num_images_per_prompt dt g
                  = (w3, evs, Inr latents)
              \<and> int (batch_dim latents) = batch_size * num_images_per_prompt))
       \<and> (\<not> int n dvd batch_size * num_images_per_prompt \<longrightarrow>
            prepare_latents q w (ImageTensor x) ts batch_size num_images_per_prompt dt g
              = (w1, CastTensor dt # es, Inl (ValueError ''Cannot duplicate image'')))"
proof -
  let ?b = "batch_size * num_images_per_prompt"
  let ?rep = "concat0 init (replicate (nat (?b div int n) - 1) init)"
  have yes: "int n dvd ?b \<Longrightarrow>
      sd_expand_latents ?b init = ([Deprecation ''len(prompt) != len(image)''], Inr ?rep)"
    using sd_expand_latents_multiple(1) [OF n] .
  have dim: "int n dvd ?b \<Longrightarrow> int (batch_dim ?rep) = ?b"
    using sd_expand_latents_multiple(2) [OF n] .
  have no: "\<not> int n dvd ?b \<Longrightarrow>
      sd_expand_latents ?b init = ([], Inl (ValueError ''Cannot duplicate image''))"
    using sd_expand_latents_no_multiple [OF n] .
  have iff: "(\<exists>r. snd (sd_expand_latents ?b init) = Inr r) \<longleftrightarrow> int n dvd ?b"
    using yes no by (cases "int n dvd ?b") simp_all
  have fail: "\<not> int n dvd ?b \<Longrightarrow>
      prepare_latents q w (ImageTensor x) ts batch_size num_images_per_prompt dt g
        = (w1, CastTensor dt # es, Inl (ValueError ''Cannot duplicate image''))"
    by (simp add: prepare_latents_def Let_def init no)
  have succ: "\<exists>w3 evs latents.
                prepare_latents q w (ImageTensor x) ts batch_size num_images_per_prompt dt g
                  = (w3, evs, Inr latents)
              \<and> int (batch_dim latents) = ?b" if d: "int n dvd ?b"
  proof -
    obtain w2 noise where r: "sd_randn_tensor q w1 (t_shape ?rep) g dt = (w2, noise)"
      by fastforce
    obtain w3 latents where a: "sd_add_noise q w2 ?rep noise ts = (w3, latents)"
      by fastforce
    have "t_shape latents = t_shape ?rep"
      using shape_kept a by (metis snd_conv)
    then have "int (batch_dim latents) = ?b"
      using dim [OF d] by (simp add: batch_dim_def)
    moreover have "prepare_latents q w (ImageTensor x) ts batch_size num_images_per_prompt dt g
        = (w3, CastTensor dt # es @ [Deprecation ''len(prompt) != len(image)'',
             RandnTensor (map int (t_shape ?rep)), AddNoise], Inr latents)"
      by (simp add: prepare_latents_def Let_def init yes [OF d] r a del: One_nat_def)
    ultimately show ?thesis by blast
  qed
  show ?thesis
    using iff yes succ fail by simp
qed


theorem prepare_latents_replicates_exact_multiples_witness:
  "(\<exists>w3 evs latents.
      prepare_latents (stub_sd_pipe 1) [] (ImageTensor stub_image) [1] 1 3 Float32 NoGenerator
        = (w3, evs, Inr latents)
      \<and> int (batch_dim latents) = 3)
   \<and> prepare_latents (stub_sd_pipe 1) []
        (ImageTensor \<lparr>t_shape = [2, 3, 1, 1], t_dtype = Float32, t_vals = [1, 2, 3, 4, 5, 6]\<rparr>)
        [1] 1 3 Float32 NoGenerator
      = ([], [CastTensor Float32, VaeEncode 2], Inl (ValueError ''Cannot duplicate image''))"
proof -
  let ?two = "\<lparr>t_shape = [2, 3, 1, 1], t_dtype = Float32, t_vals = [1, 2, 3, 4, 5, 6::real]\<rparr>"
  let ?l1 = "\<lparr>t_shape = [1, 4, 1, 1], t_dtype = Float32, t_vals = [0, 0, 0, 0::real]\<rparr>"
  let ?l2 = "\<lparr>t_shape = [2, 4, 1, 1], t_dtype = Float32, t_vals = [0, 0, 0, 0, 0, 0, 0, 0::real]\<rparr>"
  have kept: "\<forall>u y noise t. t_shape (snd (sd_add_noise (stub_sd_pipe 1) u y noise t)) = t_shape y"
    by (simp add: stub_sd_pipe_def tadd_def)
  have i1: "sd_init_latents (stub_sd_pipe 1) [] (cast Float32 stub_image) (1 * 3) NoGenerator
      = ([], [VaeEncode 1], Inr ?l1)"
    by code_simp
  have n1: "shape0 ?l1 = Inr 1" "(0::nat) < 1" "int 1 < 1 * 3"
    by (simp_all add: shape0_def)
  have i2: "sd_init_latents (stub_sd_pipe 1) [] (cast Float32 ?two) (1 * 3) NoGenerator
      = ([], [VaeEncode 2], Inr ?l2)"
    by code_simp
  have n2: "shape0 ?l2 = Inr 2" "(0::nat) < 2" "int 2 < 1 * 3"
    by (simp_all add: shape0_def)
  show ?thesis
    using prepare_latents_replicates_exact_multiples [OF i1 n1 kept, of "[1]"]
      prepare_latents_replicates_exact_multiples [OF i2 n2 kept, of "[1]"]
    by simp
qed

section \<open>Classifier-free guidance\<close>

lemma map2_guidance:
  "map2 (+) us (map ((*) g) (map2 (-) cs us)) = map2 (\<lambda>u c. u + g * (c - u)) us cs"
proof (induction us arbitrary: cs)
  case Nil
  then show ?case by simp
next
  case (Cons u us)
  then show ?case by (cases cs) simp_all
qed

lemma guided_vals:
  "t_vals (tadd u (smul g (tsub c u))) = map2 (\<lambda>x y. x + g * (y - x)) (t_vals u) (t_vals c)"
  using map2_guidance [of "t_vals u" g "t_vals c"]
  by (simp add: tadd_def smul_def tsub_def)

lemma encode_prompt_without_guidance:
  "encode_prompt p w prompt n False negative_prompt prompt_embeds negative_prompt_embeds
     = encode_prompt p w prompt n False None prompt_embeds None"
  by (simp add: encode_prompt_def Let_def cong: list.case_cong sum.case_cong)

lemma sd_loop_body_events:
  assumes "sd_scale_model_input p w (latent_model_input flag latents) t = (w1, model_input)"
    and "sd_unet p w1 model_input t pe cak = (w2, noise_pred)"
  shows "\<exists>rest. fst (snd (sd_loop_body p flag g pe cak kw len warm cb cbs i t w latents))
           = ModelCall model_input t # SchedulerStep (perform_guidance flag g noise_pred) t # rest"
  using assms
  by (simp add: sd_loop_body_def Let_def events_emit split: prod.splits)


text \<open>
  C3. The flag of line 590 is \<open>guidance_scale > 1\<close>. In every iteration the model is
  called on the doubled latents exactly when the flag holds, and on the latents
  themselves otherwise; under guidance the prediction handed to the scheduler is
  \<open>uncond + guidance_scale * (cond - uncond)\<close>, element by element, of the two halves of
  the model's output; for \<open>guidance_scale = 1\<close> it is the model's output on the
  latents with the embedding of the prompt alone, since \<^verbatim>\<open>_encode_prompt\<close> without
  guidance does not depend on the negative prompt.
\<close>

theorem classifier_free_guidance:
  fixes g :: "'a::{one,order,plus,minus,times}"
  assumes "sd_scale_model_input p w (latent_model_input (guidance_enabled g) latents) t = (w1, model_input)"
    and "sd_unet p w1 model_input t pe cak = (w2, noise_pred)"
  shows "(guidance_enabled g \<longleftrightarrow> 1 < g)
       \<and> latent_model_input (guidance_enabled g) latents
           = (if 1 < g then concat0 latents [latents] else latents)
       \<and> (\<exists>rest. fst (snd (sd_loop_body p (guidance_enabled g) g pe cak kw len warm cb cbs i t w latents))
             = ModelCall model_input t
               # SchedulerStep (perform_guidance (guidance_enabled g) g noise_pred) t # rest)
       \<and> (1 < g \<longrightarrow>
             perform_guidance (guidance_enabled g) g noise_pred
               = tadd (fst (chunk2 noise_pred))
                   (smul g (tsub (snd (chunk2 noise_pred)) (fst (chunk2 noise_pred))))
           \<and> t_vals (perform_guidance (guidance_enabled g) g noise_pred)
               = map2 (\<lambda>uncond cond. uncond + g * (cond - uncond))
                   (t_vals (fst (chunk2 noise_pred))) (t_vals (snd (chunk2 noise_pred))))
       \<and> (g = 1 \<longrightarrow>
             latent_model_input (guidance_enabled g) latents = latents
           \<and> perform_guidance (guidance_enabled g) g noise_pred = noise_pred
           \<and> encode_prompt p u prompt n (guidance_enabled g) negative_prompt prompt_embeds
                 negative_prompt_embeds
               = encode_prompt p u prompt n False None prompt_embeds None)"
proof -
  have body: "\<exists>rest. fst (snd (sd_loop_body p (guidance_enabled g) g pe cak kw len warm cb cbs i t w latents))
             = ModelCall model_input t
               # SchedulerStep (perform_guidance (guidance_enabled g) g noise_pred) t # rest"
    using sd_loop_body_events [OF assms] .
  have on: "1 < g \<Longrightarrow> perform_guidance (guidance_enabled g) g noise_pred
               = tadd (fst (chunk2 noise_pred))
                   (smul g (tsub (snd (chunk2 noise_pred)) (fst (chunk2 noise_pred))))"
    by (simp add: perform_guidance_def guidance_enabled_def split: prod.splits)
  have vals: "1 < g \<Longrightarrow> t_vals (perform_guidance (guidance_enabled g) g noise_pred)
               = map2 (\<lambda>uncond cond. uncond + g * (cond - uncond))
                   (t_vals (fst (chunk2 noise_pred))) (t_vals (snd (chunk2 noise_pred)))"
    using on by (simp add: guided_vals)
  have off: "g = 1 \<Longrightarrow> \<not> guidance_enabled g"
    by (simp add: guidance_enabled_def)
  have enc: "g = 1 \<Longrightarrow>
      encode_prompt p u prompt n (guidance_enabled g) negative_prompt prompt_embeds negative_prompt_embeds
        = encode_prompt p u prompt n False None prompt_embeds None"
    using off encode_prompt_without_guidance by simp
  show ?thesis
    using body on vals off enc
    by (simp add: guidance_enabled_def latent_model_input_def perform_guidance_def)
qed

theorem classifier_free_guidance_witness:
  "t_vals (perform_guidance (guidance_enabled (15 / 2 :: real)) (15 / 2)
       \<lparr>t_shape = [2, 1, 1, 1], t_dtype = Float32, t_vals = [1, 3 :: real]\<rparr>) = [16]
   \<and> latent_model_input (guidance_enabled (15 / 2 :: real))
       \<lparr>t_shape = [1, 1, 1, 1], t_dtype = Float32, t_vals = [5 :: real]\<rparr>
     = \<lparr>t_shape = [2, 1, 1, 1], t_dtype = Float32, t_vals = [5, 5]\<rparr>
   \<and> perform_guidance (guidance_enabled (1 :: real)) 1
       \<lparr>t_shape = [1, 1, 1, 1], t_dtype = Float32, t_vals = [3 :: real]\<rparr>
     = \<lparr>t_shape = [1, 1, 1, 1], t_dtype = Float32, t_vals = [3]\<rparr>"
proof -
  let ?p = "(stub_sd_pipe 1)\<lparr>sd_unet := (\<lambda>w x t e k.
      (w, \<lparr>t_shape = [batch_dim x, 1, 1, 1], t_dtype = Float32,
           t_vals = (if batch_dim x = 2 then [1, 3] else [3])\<rparr>))\<rparr>"
  let ?l = "\<lparr>t_shape = [1, 1, 1, 1], t_dtype = Float32, t_vals = [5 :: real]\<rparr>"
  let ?ll = "\<lparr>t_shape = [2, 1, 1, 1], t_dtype = Float32, t_vals = [5, 5 :: real]\<rparr>"
  let ?n2 = "\<lparr>t_shape = [2, 1, 1, 1], t_dtype = Float32, t_vals = [1, 3 :: real]\<rparr>"
  let ?n1 = "\<lparr>t_shape = [1, 1, 1, 1], t_dtype = Float32, t_vals = [3 :: real]\<rparr>"
  let ?e = "zeros [1, 1, 1] Float32"
  have s2: "sd_scale_model_input ?p [] (latent_model_input (guidance_enabled (15 / 2 :: real)) ?l) 0
      = ([], ?ll)"
    by (simp add: stub_sd_pipe_def guidance_enabled_def latent_model_input_def concat0_def
        batch_dim_def with_batch_def)
  have u2: "sd_unet ?p [] ?ll 0 ?e None = ([], ?n2)"
    by (simp add: stub_sd_pipe_def batch_dim_def)
  have s1: "sd_scale_model_input ?p [] (latent_model_input (guidance_enabled (1 :: real)) ?l) 0
      = ([], ?l)"
    by (simp add: stub_sd_pipe_def guidance_enabled_def latent_model_input_def)
  have u1: "sd_unet ?p [] ?l 0 ?e None = ([], ?n1)"
    by (simp add: stub_sd_pipe_def batch_dim_def)
  have c: "chunk2 ?n2 = (\<lparr>t_shape = [1, 1, 1, 1], t_dtype = Float32, t_vals = [1]\<rparr>,
                         \<lparr>t_shape = [1, 1, 1, 1], t_dtype = Float32, t_vals = [3]\<rparr>)"
    by (simp add: chunk2_def batch_dim_def with_batch_def Let_def)
  show ?thesis
    using classifier_free_guidance [OF s2 u2] classifier_free_guidance [OF s1 u1]
    by (simp add: c guidance_enabled_def latent_model_input_def concat0_def batch_dim_def
        with_batch_def tadd_def smul_def tsub_def del: One_nat_def)
qed

section \<open>The loops and the phases of a call\<close>

lemma callback_indices_append [simp]:
  "callback_indices (a @ b) = callback_indices a @ callback_indices b"
  by (simp add: callback_indices_def List.map_filter_def)

lemma callback_indices_Nil [simp]: "callback_indices [] = []"
  by (simp add: callback_indices_def List.map_filter_def)

lemma callback_indices_Cons [simp]:
  "callback_indices (e # es) = (case callback_index e of None \<Rightarrow> [] | Some i \<Rightarrow> [i]) @ callback_indices es"
  by (simp add: callback_indices_def List.map_filter_def split: option.splits)

lemma model_calls_append [simp]: "model_calls (a @ b) = model_calls a + model_calls b"
  by (simp add: model_calls_def)

lemma model_calls_Nil [simp]: "model_calls [] = 0"
  by (simp add: model_calls_def)

lemma model_calls_Cons [simp]:
  "model_calls (e # es) = (if is_model_call e then 1 else 0) + model_calls es"
  by (simp add: model_calls_def)

lemma run_loop_callbacks:
  assumes body: "\<And>i t w s. \<exists>w' es s'. body i t w s = (w', es, Inr s')
              \<and> callback_indices es = (if due i then [i] else []) \<and> model_calls es = 1"
  shows "\<exists>w' es s'. run_loop body i ts w s = (w', es, Inr s')
           \<and> callback_indices es = filter due [i..<i + length ts]
           \<and> model_calls es = length ts"
proof (induction ts arbitrary: i w s)
  case Nil
  then show ?case by simp
next
  case (Cons t ts)
  obtain w1 e1 s1 where b: "body i t w s = (w1, e1, Inr s1)"
      "callback_indices e1 = (if due i then [i] else [])" "model_calls e1 = 1"
    using body by blast
  obtain w2 e2 s2 where r: "run_loop body (Suc i) ts w1 s1 = (w2, e2, Inr s2)"
      "callback_indices e2 = filter due [Suc i..<Suc i + length ts]" "model_calls e2 = length ts"
    using Cons.IH by blast
  have "[i..<i + length (t # ts)] = i # [Suc i..<Suc i + length ts]"
    by (subst upt_rec) simp
  then show ?case
    using b r by simp
qed

lemma call_callback_some:
  assumes "0 < k"
  shows "call_callback (Some f) (StepsInt k) i t w x
           = (if int i mod k = 0 then (f w i t x, [CallbackCall i t x], Inr x) else (w, [], Inr x))"
  using assms by (simp add: call_callback_def py_mod_def)

lemma update_due_nonzero:
  assumes "ord \<noteq> 0"
  shows "update_due ord len warm i
           = Inr (int i = len - 1 \<or> (warm < int i + 1 \<and> (int i + 1) mod ord = 0))"
  using assms by (auto simp: update_due_def py_mod_def)

lemma cm_call_success:
  assumes "cm_call p w a = (w', es, Inr (out, v'))"
  shows "\<exists>warned w1 e1 sample w2 e2 cl w3 sched timesteps loop_es sample'.
           cm_check_inputs (cma_num_inference_steps a) (cma_timesteps a) (cma_latents a)
             (cma_batch_size a) (cm_sample_size p) (cma_callback_steps a) = (warned, Inr ())
         \<and> cm_prepare_latents p w (cma_batch_size a) (cm_in_channels p) (cm_sample_size p)
             (cm_sample_size p) (cm_unet_dtype p) (cma_generator a) (cma_latents a)
             = (w1, e1, Inr sample)
         \<and> cm_prepare_class_labels p w1 (cma_batch_size a) (cma_class_labels a) = (w2, e2, Inr cl)
         \<and> cm_set_schedule p w2 (cma_timesteps a)
               \<lparr>cmv_num_inference_steps = cma_num_inference_steps a,
                cmv_batch_size = cma_batch_size a,
                cmv_output_type = cma_output_type a\<rparr> = (w3, sched, timesteps, v')
         \<and> run_loop (cm_loop_body p (cma_callback a) (cma_callback_steps a) cl (cma_generator a))
               0 timesteps w3 sample = (w', loop_es, Inr sample')
         \<and> es = warned @ e1 @ e2 @ sched @ [ProgressBar (cmv_num_inference_steps v')] @ loop_es"
  using assms
  by (auto simp: cm_call_def Let_def then_run_def emit_def
      split: prod.splits sum.splits if_splits)

lemma quiet_Nil [simp]: "quiet []"
  by (simp add: quiet_def)

lemma quiet_Cons [simp]:
  "quiet (e # es) \<longleftrightarrow> callback_index e = None \<and> \<not> is_model_call e \<and> quiet es"
  by (simp add: quiet_def)

lemma quiet_append [simp]: "quiet (a @ b) \<longleftrightarrow> quiet a \<and> quiet b"
  by (simp add: quiet_def)

lemma quiet_silent: "quiet es \<Longrightarrow> callback_indices es = [] \<and> model_calls es = 0"
  by (induction es) (auto split: option.splits)

lemma quiet_cm_check_inputs: "quiet (fst (cm_check_inputs n ts l b s c))"
  by (simp add: cm_check_inputs_def Let_def)

lemma quiet_cm_prepare_latents: "quiet (fst (snd (cm_prepare_latents p w b c h wd dt g l)))"
  by (simp add: cm_prepare_latents_def Let_def split: prod.splits option.splits)

lemma quiet_cm_prepare_class_labels: "quiet (fst (snd (cm_prepare_class_labels p w b cl)))"
  by (simp add: cm_prepare_class_labels_def split: prod.splits option.splits class_labels_arg.splits)

lemma quiet_cm_set_schedule: "quiet (fst (snd (cm_set_schedule p w ts v)))"
  by (simp add: cm_set_schedule_def Let_def split: option.splits)

lemma sd_call_success:
  assumes "sd_call p w a = (w', es, Inr (out, v'))"
  shows "\<exists>batch_size w1 e1 pe w2 img w3 timesteps remaining w4 e4 latents w5 loop_es latents' e6.
           check_inputs (sda_prompt a) (sda_strength a) (sda_callback_steps a) (sda_negative_prompt a)
             (sda_prompt_embeds a) (sda_negative_prompt_embeds a) = Inr ()
         \<and> call_batch_size (sda_prompt a) (sda_prompt_embeds a) = Inr batch_size
         \<and> encode_prompt p w (sda_prompt a) (sda_num_images_per_prompt a)
               (guidance_enabled (sda_guidance_scale a)) (sda_negative_prompt a) (sda_prompt_embeds a)
               (sda_negative_prompt_embeds a) = (w1, e1, Inr pe)
         \<and> sd_preprocess p w1 (sda_image a) = (w2, img)
         \<and> w3 = sd_set_timesteps p w2 (sda_num_inference_steps a)
         \<and> get_timesteps (sd_timesteps p w3) (sd_order p w3) (sda_num_inference_steps a)
               (sda_strength a) = (timesteps, remaining)
         \<and> v' = \<lparr>sdv_strength = sda_strength a, sdv_num_inference_steps = remaining,
                  sdv_guidance_scale = sda_guidance_scale a, sdv_batch_size = batch_size,
                  sdv_output_type = sda_output_type a\<rparr>
         \<and> prepare_latents p w3 img
               (concat (replicate (nat (batch_size * sda_num_images_per_prompt a)) (take 1 timesteps)))
               batch_size (sda_num_images_per_prompt a) (t_dtype pe) (sda_generator a)
               = (w4, e4, Inr latents)
         \<and> run_loop (sd_loop_body p (guidance_enabled (sda_guidance_scale a)) (sda_guidance_scale a) pe
                       (sda_cross_attention_kwargs a)
                       (prepare_extra_step_kwargs p (sda_generator a) (sda_eta a))
                       (int (length timesteps))
                       (int (length timesteps) - remaining * sd_order p w4)
                       (sda_callback a) (sda_callback_steps a)) 0 timesteps w4 latents
               = (w5, loop_es, Inr latents')
         \<and> sd_finish p w5 latents' (t_dtype pe) (sda_output_type a) (sda_return_dict a)
               = (w', e6, Inr out)
         \<and> es = e1 @ [PreprocessImage, SetTimesteps (Some (sda_num_inference_steps a)) None] @ e4
                 @ [ProgressBar (Some remaining)] @ loop_es @ e6"
  using assms
  by (auto simp: sd_call_def Let_def then_run_def emit_def
      split: prod.splits sum.splits if_splits)

lemma quiet_then_run:
  assumes "quiet (fst (snd m))" and "\<And>w x. quiet (fst (snd (f w x)))"
  shows "quiet (fst (snd (then_run m f)))"
proof (cases m)
  case (fields w es r)
  show ?thesis
  proof (cases r)
    case (Inl e)
    then show ?thesis using assms(1) fields by simp
  next
    case (Inr x)
    then show ?thesis
      using assms(1) assms(2) [of w x] fields by (cases "f w x") simp
  qed
qed

lemma quiet_emit: "quiet evs \<Longrightarrow> quiet (fst (snd m)) \<Longrightarrow> quiet (fst (snd (emit evs m)))"
  by (cases m) simp

lemma quiet_encode_prompt: "quiet (fst (snd (encode_prompt p w pr n flag np pe ne)))"
  unfolding encode_prompt_def
  by (auto simp: Let_def intro!: quiet_then_run split: sum.splits option.splits prod.splits list.splits)

lemma quiet_map_VaeEncode: "quiet (map (\<lambda>x. VaeEncode k) xs)"
  by (induction xs) simp_all

lemma quiet_sd_init_latents: "quiet (fst (snd (sd_init_latents p w x b g)))"
  by (auto simp: sd_init_latents_def quiet_map_VaeEncode
      split: sum.splits prod.splits gen_arg.splits list.splits)

lemma quiet_sd_expand_latents: "quiet (fst (sd_expand_latents b x))"
  by (auto simp: sd_expand_latents_def Let_def split: sum.splits)

lemma quiet_prepare_latents: "quiet (fst (snd (prepare_latents p w img ts b n dt g)))"
proof (cases img)
  case (ImageTensor x)
  have "quiet (fst (snd (case sd_expand_latents b' y of (es, Inl e) \<Rightarrow> (u, es, Inl e)
        | (es, Inr z) \<Rightarrow> (case sd_randn_tensor p u (t_shape z) g dt of (w2, noise) \<Rightarrow>
            (case sd_add_noise p w2 z noise ts of (w3, latents) \<Rightarrow>
               (w3, es @ [RandnTensor (map int (t_shape z)), AddNoise], Inr latents))))))"
    for b' y u
    using quiet_sd_expand_latents [of b' y]
    by (auto split: prod.splits sum.splits)
  then show ?thesis
    using ImageTensor
    by (auto simp: prepare_latents_def Let_def quiet_sd_init_latents
        intro!: quiet_emit quiet_then_run)
qed (simp_all add: prepare_latents_def)

lemma quiet_sd_finish: "quiet (fst (snd (sd_finish p w x dt ot rd)))"
  by (auto simp: sd_finish_def run_safety_checker_def
      split: prod.splits sum.splits option.splits if_splits)

lemma callback_steps_valid: "\<not> callback_steps_invalid c \<Longrightarrow> \<exists>k. c = StepsInt k \<and> 0 < k"
  by (cases c) simp_all

lemma cm_check_inputs_ok:
  assumes "cm_check_inputs n ts l b s c = (warned, Inr ())"
  shows "\<exists>k. c = StepsInt k \<and> 0 < k"
proof -
  have "\<not> callback_steps_invalid c"
    using assms by (auto simp: cm_check_inputs_def Let_def split: if_splits)
  then show ?thesis by (rule callback_steps_valid)
qed

lemma check_inputs_ok:
  assumes "check_inputs pr s c np pe ne = Inr ()"
  shows "\<exists>k. c = StepsInt k \<and> 0 < k"
proof -
  have "\<not> callback_steps_invalid c"
    using assms by (auto simp: check_inputs_def split: if_splits)
  then show ?thesis by (rule callback_steps_valid)
qed

lemma call_callback_none: "call_callback None c i t w x = (w, [], Inr x)"
  by (simp add: call_callback_def)

lemma cm_loop_body_steps:
  assumes "0 < k"
  shows "\<exists>w' es s'. cm_loop_body p cb (StepsInt k) cl g i t w s = (w', es, Inr s')
           \<and> callback_indices es = (if cb \<noteq> None \<and> int i mod k = 0 then [i] else [])
           \<and> model_calls es = 1"
  using assms
  by (cases cb) (simp_all add: cm_loop_body_def call_callback_some call_callback_none split: prod.splits)

lemma cm_loop_run:
  assumes "0 < k"
    and "run_loop (cm_loop_body p cb (StepsInt k) cl g) 0 ts w s = (w', es, r)"
  shows "callback_indices es = filter (\<lambda>i. cb \<noteq> None \<and> int i mod k = 0) [0..<length ts]
       \<and> model_calls es = length ts"
  using run_loop_callbacks [of "cm_loop_body p cb (StepsInt k) cl g"
      "\<lambda>i. cb \<noteq> None \<and> int i mod k = 0" 0 ts w s, OF cm_loop_body_steps [OF assms(1)]]
    assms(2)
  by auto

lemma sd_loop_body_steps:
  assumes "0 < k" and "\<And>u. sd_order p u = ord" and "ord \<noteq> 0"
  shows "\<exists>w' es s'. sd_loop_body p flag gs pe cak kw len warm cb (StepsInt k) i t w s
             = (w', es, Inr s')
           \<and> callback_indices es
               = (if cb \<noteq> None \<and> (int i = len - 1 \<or> (warm < int i + 1 \<and> (int i + 1) mod ord = 0))
                     \<and> int i mod k = 0 then [i] else [])
           \<and> model_calls es = 1"
  using assms(1,3)
  by (cases cb)
    (auto simp: sd_loop_body_def Let_def assms(2) update_due_nonzero call_callback_some
      call_callback_none split: prod.splits)

lemma sd_loop_run:
  assumes "0 < k" and "\<And>u. sd_order p u = ord" and "ord \<noteq> 0"
    and "run_loop (sd_loop_body p flag gs pe cak kw len warm cb (StepsInt k)) 0 ts w s = (w', es, r)"
  shows "callback_indices es
           = filter (\<lambda>i. cb \<noteq> None \<and> (int i = len - 1 \<or> (warm < int i + 1 \<and> (int i + 1) mod ord = 0))
                        \<and> int i mod k = 0) [0..<length ts]
       \<and> model_calls es = length ts"
  using run_loop_callbacks [of "sd_loop_body p flag gs pe cak kw len warm cb (StepsInt k)"
      "\<lambda>i. cb \<noteq> None \<and> (int i = len - 1 \<or> (warm < int i + 1 \<and> (int i + 1) mod ord = 0))
             \<and> int i mod k = 0" 0 ts w s,
      OF sd_loop_body_steps [OF assms(1) assms(2) assms(3)]]
    assms(4)
  by auto

lemma get_timesteps_remaining:
  "snd (get_timesteps ts ord n s) = n - max (n - min (py_int (of_int n * s)) n) 0"
  by (simp add: get_timesteps_def Let_def)

section \<open>Step count of the consistency pipeline\<close>

text \<open>
  C6. With neither \<^verbatim>\<open>num_inference_steps\<close> nor \<^verbatim>\<open>timesteps\<close> the call of the
  consistency pipeline ends in a \<open>ValueError\<close> with no event and the world untouched.
  With both, the check logs one warning and raises nothing itself, and in a call that
  returns the scheduler was configured from the explicit list alone, the step count is
  the length of the scheduler's resulting sequence, which is the total of the progress
  bar and the number of iterations of the loop.
\<close>

theorem cm_steps_or_timesteps:
  "(cma_num_inference_steps a = None \<and> cma_timesteps a = None \<longrightarrow>
      (\<exists>m. cm_call p w a = (w, [], Inl (ValueError m))))
   \<and> (cma_num_inference_steps a = Some n \<and> cma_timesteps a = Some ts \<longrightarrow>
        fst (cm_check_inputs (cma_num_inference_steps a) (cma_timesteps a) (cma_latents a)
               (cma_batch_size a) (cm_sample_size p) (cma_callback_steps a))
          = [LogWarning ''Both num_inference_steps and timesteps are supplied; timesteps will be used over num_inference_steps.'']
      \<and> (snd (snd (cm_call p w a)) = Inr (out, v') \<longrightarrow>
            (\<exists>u. SetTimesteps None (Some ts) \<in> set (fst (snd (cm_call p w a)))
               \<and> cmv_num_inference_steps v'
                   = Some (int (length (cm_timesteps p (cm_set_timesteps p u None (Some ts)))))
               \<and> model_calls (fst (snd (cm_call p w a)))
                   = length (cm_timesteps p (cm_set_timesteps p u None (Some ts)))
               \<and> ProgressBar (cmv_num_inference_steps v') \<in> set (fst (snd (cm_call p w a))))))"
proof (intro conjI impI)
  assume "cma_num_inference_steps a = None \<and> cma_timesteps a = None"
  then show "\<exists>m. cm_call p w a = (w, [], Inl (ValueError m))"
    by (simp add: cm_call_def cm_check_inputs_def Let_def)
next
  assume "cma_num_inference_steps a = Some n \<and> cma_timesteps a = Some ts"
  then show "fst (cm_check_inputs (cma_num_inference_steps a) (cma_timesteps a) (cma_latents a)
               (cma_batch_size a) (cm_sample_size p) (cma_callback_steps a))
          = [LogWarning ''Both num_inference_steps and timesteps are supplied; timesteps will be used over num_inference_steps.'']"
    by (simp add: cm_check_inputs_def Let_def)
next
  assume both: "cma_num_inference_steps a = Some n \<and> cma_timesteps a = Some ts"
    and ok: "snd (snd (cm_call p w a)) = Inr (out, v')"
  let ?es = "fst (snd (cm_call p w a))"
  have run: "cm_call p w a = (fst (cm_call p w a), ?es, Inr (out, v'))"
    using ok by (metis prod.collapse)
  from cm_call_success [OF run]
  obtain warned w1 e1 sample w2 e2 cl w3 sched timesteps loop_es sample' where
    chk: "cm_check_inputs (cma_num_inference_steps a) (cma_timesteps a) (cma_latents a)
             (cma_batch_size a) (cm_sample_size p) (cma_callback_steps a) = (warned, Inr ())"
    and lat: "cm_prepare_latents p w (cma_batch_size a) (cm_in_channels p) (cm_sample_size p)
             (cm_sample_size p) (cm_unet_dtype p) (cma_generator a) (cma_latents a)
             = (w1, e1, Inr sample)"
    and lab: "cm_prepare_class_labels p w1 (cma_batch_size a) (cma_class_labels a) = (w2, e2, Inr cl)"
    and sch: "cm_set_schedule p w2 (cma_timesteps a)
               \<lparr>cmv_num_inference_steps = cma_num_inference_steps a,
                cmv_batch_size = cma_batch_size a,
                cmv_output_type = cma_output_type a\<rparr> = (w3, sched, timesteps, v')"
    and loop: "run_loop (cm_loop_body p (cma_callback a) (cma_callback_steps a) cl (cma_generator a))
               0 timesteps w3 sample = (fst (cm_call p w a), loop_es, Inr sample')"
    and es: "?es = warned @ e1 @ e2 @ sched @ [ProgressBar (cmv_num_inference_steps v')] @ loop_es"
    by blast
  obtain k where k: "cma_callback_steps a = StepsInt k" "0 < k"
    using cm_check_inputs_ok [OF chk] by blast
  have q: "quiet warned" "quiet e1" "quiet e2" "quiet sched"
    using quiet_cm_check_inputs [of "cma_num_inference_steps a" "cma_timesteps a" "cma_latents a"
        "cma_batch_size a" "cm_sample_size p" "cma_callback_steps a"]
      quiet_cm_prepare_latents [of p w "cma_batch_size a" "cm_in_channels p" "cm_sample_size p"
        "cm_sample_size p" "cm_unet_dtype p" "cma_generator a" "cma_latents a"]
      quiet_cm_prepare_class_labels [of p w1 "cma_batch_size a" "cma_class_labels a"]
      quiet_cm_set_schedule [of p w2 "cma_timesteps a"
        "\<lparr>cmv_num_inference_steps = cma_num_inference_steps a,
          cmv_batch_size = cma_batch_size a, cmv_output_type = cma_output_type a\<rparr>"]
    by (simp_all add: chk lat lab sch)
  have mc: "model_calls loop_es = length timesteps"
    using cm_loop_run [OF k(2) loop [unfolded k(1)]] by simp
  have total: "model_calls ?es = length timesteps"
    using q mc by (simp add: es quiet_silent)
  have s: "sched = [SetTimesteps None (Some ts)]"
      "timesteps = cm_timesteps p (cm_set_timesteps p w2 None (Some ts))"
      "cmv_num_inference_steps v' = Some (int (length timesteps))"
    using sch both by (auto simp: cm_set_schedule_def Let_def)
  show "\<exists>u. SetTimesteps None (Some ts) \<in> set ?es
        \<and> cmv_num_inference_steps v'
            = Some (int (length (cm_timesteps p (cm_set_timesteps p u None (Some ts)))))
        \<and> model_calls ?es = length (cm_timesteps p (cm_set_timesteps p u None (Some ts)))
        \<and> ProgressBar (cmv_num_inference_steps v') \<in> set ?es"
    using total s by (intro exI [of _ w2]) (simp add: es)
qed

theorem cm_steps_or_timesteps_witness:
  "(\<exists>m. cm_call (stub_cm_pipe 3) [] (stub_cm_args\<lparr>cma_num_inference_steps := None\<rparr>)
          = ([], [], Inl (ValueError m)))
   \<and> SetTimesteps None (Some [22, 0])
       \<in> set (fst (snd (cm_call (stub_cm_pipe 3) [] (stub_cm_args\<lparr>cma_timesteps := Some [22, 0]\<rparr>))))
   \<and> model_calls (fst (snd (cm_call (stub_cm_pipe 3) [] (stub_cm_args\<lparr>cma_timesteps := Some [22, 0]\<rparr>))))
       = 2"
proof -
  let ?out = "ImagePipelineOutput
      (OutPil \<lparr>t_shape = [1, 3, 1, 1], t_dtype = Float32, t_vals = [0, 0, 0 :: real]\<rparr>)"
  let ?v = "\<lparr>cmv_num_inference_steps = Some 2, cmv_batch_size = 1, cmv_output_type = ''pil''\<rparr>"
  have ok: "snd (snd (cm_call (stub_cm_pipe 3) [] (stub_cm_args\<lparr>cma_timesteps := Some [22, 0]\<rparr>)))
      = Inr (?out, ?v)"
    by code_simp
  show ?thesis
    using cm_steps_or_timesteps
        [where a = "stub_cm_args\<lparr>cma_num_inference_steps := None\<rparr>" and p = "stub_cm_pipe 3"
           and w = "[]"]
      cm_steps_or_timesteps
        [where a = "stub_cm_args\<lparr>cma_timesteps := Some [22, 0]\<rparr>" and p = "stub_cm_pipe 3"
           and w = "[]" and n = 1 and ts = "[22, 0]" and out = ?out and v' = ?v]
      ok
    by (simp add: stub_cm_args_def stub_cm_pipe_def)
qed

section \<open>Invocations of the callback\<close>

text \<open>
  C4, as the code has it. In a call that returns with a callback given,
  \<^verbatim>\<open>callback_steps\<close> is a positive integer \<open>k\<close>. The consistency pipeline invokes the
  callback exactly at the iterations \<open>i\<close> with \<open>i % k = 0\<close>. The image2image pipeline,
  with a scheduler of constant non-zero order, invokes it exactly at the iterations with
  \<open>i % k = 0\<close> that are also points of progress: the last iteration, or
  \<open>i + 1 > num_warmup_steps\<close> and \<open>(i + 1) % order = 0\<close>. The number of iterations is
  the number of calls of the model; \<open>num_warmup_steps\<close> is that number minus
  \<open>num_inference_steps * order\<close>.
\<close>

theorem callback_invocations:
  "(snd (snd (cm_call p w a)) = Inr r \<and> cma_callback a = Some f \<longrightarrow>
      (\<exists>k. cma_callback_steps a = StepsInt k \<and> 0 < k
         \<and> callback_indices (fst (snd (cm_call p w a)))
             = filter (\<lambda>i. int i mod k = 0) [0..<model_calls (fst (snd (cm_call p w a)))]))
   \<and> (snd (snd (sd_call q u b)) = Inr r' \<and> sda_callback b = Some f'
        \<and> (\<forall>x. sd_order q x = ord) \<and> ord \<noteq> 0 \<longrightarrow>
      (\<exists>k. sda_callback_steps b = StepsInt k \<and> 0 < k
         \<and> callback_indices (fst (snd (sd_call q u b)))
             = filter (\<lambda>i. (int i = int (model_calls (fst (snd (sd_call q u b)))) - 1
                            \<or> (int (model_calls (fst (snd (sd_call q u b))))
                                  - sdv_num_inference_steps (snd r') * ord < int i + 1
                               \<and> (int i + 1) mod ord = 0))
                          \<and> int i mod k = 0)
                 [0..<model_calls (fst (snd (sd_call q u b)))]))"
proof (intro conjI impI)
  assume h: "snd (snd (cm_call p w a)) = Inr r \<and> cma_callback a = Some f"
  let ?es = "fst (snd (cm_call p w a))"
  have run: "cm_call p w a = (fst (cm_call p w a), ?es, Inr (fst r, snd r))"
    using h by (metis prod.collapse)
  from cm_call_success [OF run]
  obtain warned w1 e1 sample w2 e2 cl w3 sched timesteps loop_es sample' where
    chk: "cm_check_inputs (cma_num_inference_steps a) (cma_timesteps a) (cma_latents a)
             (cma_batch_size a) (cm_sample_size p) (cma_callback_steps a) = (warned, Inr ())"
    and lat: "cm_prepare_latents p w (cma_batch_size a) (cm_in_channels p) (cm_sample_size p)
             (cm_sample_size p) (cm_unet_dtype p) (cma_generator a) (cma_latents a)
             = (w1, e1, Inr sample)"
    and lab: "cm_prepare_class_labels p w1 (cma_batch_size a) (cma_class_labels a) = (w2, e2, Inr cl)"
    and sch: "cm_set_schedule p w2 (cma_timesteps a)
               \<lparr>cmv_num_inference_steps = cma_num_inference_steps a,
                cmv_batch_size = cma_batch_size a,
                cmv_output_type = cma_output_type a\<rparr> = (w3, sched, timesteps, snd r)"
    and loop: "run_loop (cm_loop_body p (cma_callback a) (cma_callback_steps a) cl (cma_generator a))
               0 timesteps w3 sample = (fst (cm_call p w a), loop_es, Inr sample')"
    and es: "?es = warned @ e1 @ e2 @ sched @ [ProgressBar (cmv_num_inference_steps (snd r))] @ loop_es"
    by blast
  obtain k where k: "cma_callback_steps a = StepsInt k" "0 < k"
    using cm_check_inputs_ok [OF chk] by blast
  have q: "quiet warned" "quiet e1" "quiet e2" "quiet sched"
    using quiet_cm_check_inputs [of "cma_num_inference_steps a" "cma_timesteps a" "cma_latents a"
        "cma_batch_size a" "cm_sample_size p" "cma_callback_steps a"]
      quiet_cm_prepare_latents [of p w "cma_batch_size a" "cm_in_channels p" "cm_sample_size p"
        "cm_sample_size p" "cm_unet_dtype p" "cma_generator a" "cma_latents a"]
      quiet_cm_prepare_class_labels [of p w1 "cma_batch_size a" "cma_class_labels a"]
      quiet_cm_set_schedule [of p w2 "cma_timesteps a"
        "\<lparr>cmv_num_inference_steps = cma_num_inference_steps a,
          cmv_batch_size = cma_batch_size a, cmv_output_type = cma_output_type a\<rparr>"]
    by (simp_all add: chk lat lab sch)
  have l: "callback_indices loop_es = filter (\<lambda>i. int i mod k = 0) [0..<length timesteps]"
      "model_calls loop_es = length timesteps"
    using cm_loop_run [OF k(2) loop [unfolded k(1)]] h by simp_all
  have "callback_indices ?es = filter (\<lambda>i. int i mod k = 0) [0..<model_calls ?es]"
    using q l by (simp add: es quiet_silent)
  then show "\<exists>k. cma_callback_steps a = StepsInt k \<and> 0 < k
         \<and> callback_indices ?es = filter (\<lambda>i. int i mod k = 0) [0..<model_calls ?es]"
    using k by blast
next
  assume h: "snd (snd (sd_call q u b)) = Inr r' \<and> sda_callback b = Some f'
        \<and> (\<forall>x. sd_order q x = ord) \<and> ord \<noteq> 0"
  let ?es = "fst (snd (sd_call q u b))"
  have ord: "\<And>x. sd_order q x = ord" and nz: "ord \<noteq> 0"
    using h by simp_all
  have run: "sd_call q u b = (fst (sd_call q u b), ?es, Inr (fst r', snd r'))"
    using h by (metis prod.collapse)
  from sd_call_success [OF run]
  obtain batch_size w1 e1 pe w2 img w3 timesteps remaining w4 e4 latents w5 loop_es latents' e6 where
    chk: "check_inputs (sda_prompt b) (sda_strength b) (sda_callback_steps b) (sda_negative_prompt b)
             (sda_prompt_embeds b) (sda_negative_prompt_embeds b) = Inr ()"
    and enc: "encode_prompt q u (sda_prompt b) (sda_num_images_per_prompt b)
               (guidance_enabled (sda_guidance_scale b)) (sda_negative_prompt b) (sda_prompt_embeds b)
               (sda_negative_prompt_embeds b) = (w1, e1, Inr pe)"
    and v: "snd r' = \<lparr>sdv_strength = sda_strength b, sdv_num_inference_steps = remaining,
                  sdv_guidance_scale = sda_guidance_scale b, sdv_batch_size = batch_size,
                  sdv_output_type = sda_output_type b\<rparr>"
    and lat: "prepare_latents q w3 img
               (concat (replicate (nat (batch_size * sda_num_images_per_prompt b)) (take 1 timesteps)))
               batch_size (sda_num_images_per_prompt b) (t_dtype pe) (sda_generator b)
               = (w4, e4, Inr latents)"
    and loop: "run_loop (sd_loop_body q (guidance_enabled (sda_guidance_scale b)) (sda_guidance_scale b) pe
                       (sda_cross_attention_kwargs b)
                       (prepare_extra_step_kwargs q (sda_generator b) (sda_eta b))
                       (int (length timesteps))
                       (int (length timesteps) - remaining * sd_order q w4)
                       (sda_callback b) (sda_callback_steps b)) 0 timesteps w4 latents
               = (w5, loop_es, Inr latents')"
    and fin: "sd_finish q w5 latents' (t_dtype pe) (sda_output_type b) (sda_return_dict b)
               = (fst (sd_call q u b), e6, Inr (fst r'))"
    and es: "?es = e1 @ [PreprocessImage, SetTimesteps (Some (sda_num_inference_steps b)) None] @ e4
                 @ [ProgressBar (Some remaining)] @ loop_es @ e6"
    by blast
  obtain k where k: "sda_callback_steps b = StepsInt k" "0 < k"
    using check_inputs_ok [OF chk] by blast
  have q1: "quiet e1"
    using quiet_encode_prompt [of q u "sda_prompt b" "sda_num_images_per_prompt b"
        "guidance_enabled (sda_guidance_scale b)" "sda_negative_prompt b" "sda_prompt_embeds b"
        "sda_negative_prompt_embeds b"]
    by (simp add: enc)
  have "quiet (fst (snd (w4, e4, (Inr latents :: exn + _))))"
    using quiet_prepare_latents [of q w3 img
        "concat (replicate (nat (batch_size * sda_num_images_per_prompt b)) (take 1 timesteps))"
        batch_size "sda_num_images_per_prompt b" "t_dtype pe" "sda_generator b"]
    by (simp only: lat)
  then have q4: "quiet e4"
    by simp
  have q6: "quiet e6"
    using quiet_sd_finish [of q w5 latents' "t_dtype pe" "sda_output_type b" "sda_return_dict b"]
    by (simp add: fin)
  note qs = q1 q4 q6
  let ?due = "\<lambda>i. (int i = int (length timesteps) - 1
                  \<or> (int (length timesteps) - remaining * ord < int i + 1 \<and> (int i + 1) mod ord = 0))
                \<and> int i mod k = 0"
  have l: "callback_indices loop_es = filter ?due [0..<length timesteps]"
      "model_calls loop_es = length timesteps"
    using sd_loop_run [OF k(2) ord nz loop [unfolded k(1) ord]] h by simp_all
  have total: "model_calls ?es = length timesteps"
    using qs l by (simp add: es quiet_silent)
  have "callback_indices ?es = filter ?due [0..<length timesteps]"
    using qs l by (simp add: es quiet_silent)
  then show "\<exists>k. sda_callback_steps b = StepsInt k \<and> 0 < k
         \<and> callback_indices ?es
             = filter (\<lambda>i. (int i = int (model_calls ?es) - 1
                            \<or> (int (model_calls ?es) - sdv_num_inference_steps (snd r') * ord < int i + 1
                               \<and> (int i + 1) mod ord = 0))
                          \<and> int i mod k = 0)
                 [0..<model_calls ?es]"
    using k total v by auto
qed

theorem callback_invocations_witness:
  "callback_indices (fst (snd (cm_call (stub_cm_pipe 3) []
       (stub_cm_args\<lparr>cma_timesteps := Some [22, 0, 0], cma_callback := Some (\<lambda>w i t x. w),
          cma_callback_steps := StepsInt 2\<rparr>)))) = [0, 2]
   \<and> callback_indices (fst (snd (sd_call (stub_sd_pipe 2) []
       (stub_sd_args\<lparr>sda_guidance_scale := 1, sda_callback := Some (\<lambda>w i t x. w)\<rparr>)))) = [1, 3]"
proof -
  let ?a = "stub_cm_args\<lparr>cma_timesteps := Some [22, 0, 0], cma_callback := Some (\<lambda>w i t x. w),
          cma_callback_steps := StepsInt 2\<rparr>"
  let ?b = "stub_sd_args\<lparr>sda_guidance_scale := 1, sda_callback := Some (\<lambda>w i t x. w)\<rparr>"
  let ?r = "(ImagePipelineOutput
      (OutPil \<lparr>t_shape = [1, 3, 1, 1], t_dtype = Float32, t_vals = [0, 0, 0 :: real]\<rparr>),
      \<lparr>cmv_num_inference_steps = Some 3, cmv_batch_size = 1, cmv_output_type = ''pil''\<rparr>)"
  let ?r' = "(StableDiffusionPipelineOutput
      (OutPd \<lparr>t_shape = [1, 4, 1, 1], t_dtype = Float32, t_vals = [0, 0, 0, 0 :: real]\<rparr>) None,
      \<lparr>sdv_strength = 1 / 2, sdv_num_inference_steps = 2, sdv_guidance_scale = 1 :: real,
        sdv_batch_size = 1, sdv_output_type = ''latent''\<rparr>)"
  have ok: "snd (snd (cm_call (stub_cm_pipe 3) [] ?a)) = Inr ?r"
    by code_simp
  have ok': "snd (snd (sd_call (stub_sd_pipe 2) [] ?b)) = Inr ?r'"
    by code_simp
  have mc: "model_calls (fst (snd (cm_call (stub_cm_pipe 3) [] ?a))) = 3"
    by code_simp
  have mc': "model_calls (fst (snd (sd_call (stub_sd_pipe 2) [] ?b))) = 4"
    by code_simp
  have u3: "[0..<3] = [0, 1, 2]" and u4: "[0..<4] = [0, 1, 2, 3]"
    by code_simp+
  have ord: "\<forall>x. sd_order (stub_sd_pipe 2) x = 2"
    by (simp add: stub_sd_pipe_def)
  have c: "cma_callback ?a = Some (\<lambda>w i t x. w)" "cma_callback_steps ?a = StepsInt 2"
      "sda_callback ?b = Some (\<lambda>w i t x. w)" "sda_callback_steps ?b = StepsInt 1"
    by (simp_all add: stub_cm_args_def stub_sd_args_def)
  have "callback_indices (fst (snd (cm_call (stub_cm_pipe 3) [] ?a)))
      = filter (\<lambda>i. int i mod 2 = 0) [0..<3]"
    using callback_invocations
        [where p = "stub_cm_pipe 3" and w = "[]" and a = ?a and r = ?r and f = "\<lambda>w i t x. w"
           and q = "stub_sd_pipe 2" and u = "[]" and b = ?b and r' = ?r' and f' = "\<lambda>w i t x. w"
           and ord = 2]
      ok c(1) by (simp only: c(2) mc) simp
  moreover have "callback_indices (fst (snd (sd_call (stub_sd_pipe 2) [] ?b)))
      = filter (\<lambda>i. (int i = 4 - 1 \<or> (4 - 2 * 2 < int i + 1 \<and> (int i + 1) mod 2 = 0))
                   \<and> int i mod 1 = 0) [0..<4]"
    using callback_invocations
        [where p = "stub_cm_pipe 3" and w = "[]" and a = ?a and r = ?r and f = "\<lambda>w i t x. w"
           and q = "stub_sd_pipe 2" and u = "[]" and b = ?b and r' = ?r' and f' = "\<lambda>w i t x. w"
           and ord = 2]
      ok' c(3) ord by (simp only: c(4) mc') simp
  ultimately show ?thesis
    by (simp add: u3 u4)
qed

text \<open>
  The last iteration is not always reported: two timesteps with \<^verbatim>\<open>callback_steps = 2\<close>
  in the consistency pipeline invoke the callback at index 0 only. And a multiple of
  \<^verbatim>\<open>callback_steps\<close> is not always reported: four timesteps of a scheduler of order 2
  with \<^verbatim>\<open>callback_steps = 1\<close> in the image2image pipeline invoke it at 1 and 3 only.
\<close>

theorem callback_final_iteration_counterexample:
  "model_calls (fst (snd (cm_call (stub_cm_pipe 3) []
       (stub_cm_args\<lparr>cma_timesteps := Some [22, 0], cma_callback := Some (\<lambda>w i t x. w),
          cma_callback_steps := StepsInt 2\<rparr>)))) = 2
   \<and> callback_indices (fst (snd (cm_call (stub_cm_pipe 3) []
       (stub_cm_args\<lparr>cma_timesteps := Some [22, 0], cma_callback := Some (\<lambda>w i t x. w),
          cma_callback_steps := StepsInt 2\<rparr>)))) = [0]
   \<and> model_calls (fst (snd (sd_call (stub_sd_pipe 2) []
       (stub_sd_args\<lparr>sda_guidance_scale := 1, sda_callback := Some (\<lambda>w i t x. w),
          sda_callback_steps := StepsInt 1\<rparr>)))) = 4
   \<and> callback_indices (fst (snd (sd_call (stub_sd_pipe 2) []
       (stub_sd_args\<lparr>sda_guidance_scale := 1, sda_callback := Some (\<lambda>w i t x. w),
          sda_callback_steps := StepsInt 1\<rparr>)))) = [1, 3]"
  by code_simp

section \<open>The call parameters\<close>

lemma cm_call_params:
  assumes ok: "snd (snd (cm_call p w a)) = Inr (out, v')"
  shows "cmv_batch_size v' = cma_batch_size a \<and> cmv_output_type v' = cma_output_type a
       \<and> cmv_num_inference_steps v'
           = (case cma_timesteps a of
                None \<Rightarrow> cma_num_inference_steps a
              | Some ts \<Rightarrow> Some (int (model_calls (fst (snd (cm_call p w a))))))
       \<and> ProgressBar (cmv_num_inference_steps v') \<in> set (fst (snd (cm_call p w a)))"
proof -
  let ?es = "fst (snd (cm_call p w a))"
  let ?v = "\<lparr>cmv_num_inference_steps = cma_num_inference_steps a,
            cmv_batch_size = cma_batch_size a, cmv_output_type = cma_output_type a\<rparr>"
  have run: "cm_call p w a = (fst (cm_call p w a), ?es, Inr (out, v'))"
    using ok by (metis prod.collapse)
  from cm_call_success [OF run]
  obtain warned w1 e1 sample w2 e2 cl w3 sched timesteps loop_es sample' where
    chk: "cm_check_inputs (cma_num_inference_steps a) (cma_timesteps a) (cma_latents a)
             (cma_batch_size a) (cm_sample_size p) (cma_callback_steps a) = (warned, Inr ())"
    and lat: "cm_prepare_latents p w (cma_batch_size a) (cm_in_channels p) (cm_sample_size p)
             (cm_sample_size p) (cm_unet_dtype p) (cma_generator a) (cma_latents a)
             = (w1, e1, Inr sample)"
    and lab: "cm_prepare_class_labels p w1 (cma_batch_size a) (cma_class_labels a) = (w2, e2, Inr cl)"
    and sch: "cm_set_schedule p w2 (cma_timesteps a) ?v = (w3, sched, timesteps, v')"
    and loop: "run_loop (cm_loop_body p (cma_callback a) (cma_callback_steps a) cl (cma_generator a))
               0 timesteps w3 sample = (fst (cm_call p w a), loop_es, Inr sample')"
    and es: "?es = warned @ e1 @ e2 @ sched @ [ProgressBar (cmv_num_inference_steps v')] @ loop_es"
    by blast
  obtain k where k: "cma_callback_steps a = StepsInt k" "0 < k"
    using cm_check_inputs_ok [OF chk] by blast
  have q: "quiet warned" "quiet e1" "quiet e2" "quiet sched"
    using quiet_cm_check_inputs [of "cma_num_inference_steps a" "cma_timesteps a" "cma_latents a"
        "cma_batch_size a" "cm_sample_size p" "cma_callback_steps a"]
      quiet_cm_prepare_latents [of p w "cma_batch_size a" "cm_in_channels p" "cm_sample_size p"
        "cm_sample_size p" "cm_unet_dtype p" "cma_generator a" "cma_latents a"]
      quiet_cm_prepare_class_labels [of p w1 "cma_batch_size a" "cma_class_labels a"]
      quiet_cm_set_schedule [of p w2 "cma_timesteps a" ?v]
    by (simp_all add: chk lat lab sch)
  have "model_calls loop_es = length timesteps"
    using cm_loop_run [OF k(2) loop [unfolded k(1)]] by simp
  then have total: "model_calls ?es = length timesteps"
    using q by (simp add: es quiet_silent)
  have "cmv_batch_size v' = cma_batch_size a" "cmv_output_type v' = cma_output_type a"
      "cmv_num_inference_steps v'
         = (case cma_timesteps a of None \<Rightarrow> cma_num_inference_steps a
            | Some ts \<Rightarrow> Some (int (length timesteps)))"
    using sch by (auto simp: cm_set_schedule_def Let_def split: option.splits)
  moreover have "ProgressBar (cmv_num_inference_steps v') \<in> set ?es"
    by (simp add: es)
  ultimately show ?thesis
    using total by (simp split: option.splits)
qed

lemma sd_call_params:
  assumes ok: "snd (snd (sd_call p w a)) = Inr (out, v')"
  shows "sdv_strength v' = sda_strength a \<and> sdv_guidance_scale v' = sda_guidance_scale a
       \<and> call_batch_size (sda_prompt a) (sda_prompt_embeds a) = Inr (sdv_batch_size v')
       \<and> sdv_output_type v' = sda_output_type a
       \<and> sdv_num_inference_steps v'
           = sda_num_inference_steps a
             - max (sda_num_inference_steps a
                     - min (py_int (of_int (sda_num_inference_steps a) * sda_strength a))
                         (sda_num_inference_steps a)) 0
       \<and> ProgressBar (Some (sdv_num_inference_steps v')) \<in> set (fst (snd (sd_call p w a)))"
proof -
  let ?es = "fst (snd (sd_call p w a))"
  have run: "sd_call p w a = (fst (sd_call p w a), ?es, Inr (out, v'))"
    using ok by (metis prod.collapse)
  from sd_call_success [OF run]
  obtain batch_size e1 w3 timesteps remaining e4 loop_es e6 where
    bs: "call_batch_size (sda_prompt a) (sda_prompt_embeds a) = Inr batch_size"
    and gt: "get_timesteps (sd_timesteps p w3) (sd_order p w3) (sda_num_inference_steps a)
               (sda_strength a) = (timesteps, remaining)"
    and v: "v' = \<lparr>sdv_strength = sda_strength a, sdv_num_inference_steps = remaining,
                  sdv_guidance_scale = sda_guidance_scale a, sdv_batch_size = batch_size,
                  sdv_output_type = sda_output_type a\<rparr>"
    and es: "?es = e1 @ [PreprocessImage, SetTimesteps (Some (sda_num_inference_steps a)) None] @ e4
                 @ [ProgressBar (Some remaining)] @ loop_es @ e6"
    by blast
  have "remaining = sda_num_inference_steps a
             - max (sda_num_inference_steps a
                     - min (py_int (of_int (sda_num_inference_steps a) * sda_strength a))
                         (sda_num_inference_steps a)) 0"
    using get_timesteps_remaining [of "sd_timesteps p w3" "sd_order p w3"
        "sda_num_inference_steps a" "sda_strength a"] gt by simp
  then show ?thesis
    using bs v by (simp add: es)
qed

text \<open>
  C5, as the code has it. When a call returns, strength, guidance scale, batch size and
  output format are the values fixed at entry. The step count is not: the image2image
  pipeline rebinds \<^verbatim>\<open>num_inference_steps\<close> to the remaining step count of
  \<^verbatim>\<open>get_timesteps\<close>, the consistency pipeline with explicit timesteps to the length of
  the scheduler's sequence (the number of iterations), and the progress bar is created
  with the rebound value.
\<close>

theorem call_parameters_after_validation:
  "(snd (snd (sd_call p w a)) = Inr (out, v') \<longrightarrow>
      sdv_strength v' = sda_strength a \<and> sdv_guidance_scale v' = sda_guidance_scale a
      \<and> call_batch_size (sda_prompt a) (sda_prompt_embeds a) = Inr (sdv_batch_size v')
      \<and> sdv_output_type v' = sda_output_type a
      \<and> sdv_num_inference_steps v'
          = sda_num_inference_steps a
            - max (sda_num_inference_steps a
                    - min (py_int (of_int (sda_num_inference_steps a) * sda_strength a))
                        (sda_num_inference_steps a)) 0
      \<and> ProgressBar (Some (sdv_num_inference_steps v')) \<in> set (fst (snd (sd_call p w a))))
   \<and> (snd (snd (cm_call q u b)) = Inr (out', c') \<longrightarrow>
      cmv_batch_size c' = cma_batch_size b \<and> cmv_output_type c' = cma_output_type b
      \<and> cmv_num_inference_steps c'
          = (case cma_timesteps b of
               None \<Rightarrow> cma_num_inference_steps b
             | Some ts \<Rightarrow> Some (int (model_calls (fst (snd (cm_call q u b))))))
      \<and> ProgressBar (cmv_num_inference_steps c') \<in> set (fst (snd (cm_call q u b))))"
  using sd_call_params [of p w a out v'] cm_call_params [of q u b out' c']
  by blast

theorem call_parameters_after_validation_witness:
  "ProgressBar (Some 2) \<in> set (fst (snd (sd_call (stub_sd_pipe 2) []
       (stub_sd_args\<lparr>sda_guidance_scale := 1\<rparr>))))
   \<and> ProgressBar (Some 2) \<in> set (fst (snd (cm_call (stub_cm_pipe 3) []
       (stub_cm_args\<lparr>cma_timesteps := Some [22, 0]\<rparr>))))"
proof -
  let ?a = "stub_sd_args\<lparr>sda_guidance_scale := 1\<rparr>"
  let ?b = "stub_cm_args\<lparr>cma_timesteps := Some [22, 0]\<rparr>"
  let ?out = "StableDiffusionPipelineOutput
      (OutPd \<lparr>t_shape = [1, 4, 1, 1], t_dtype = Float32, t_vals = [0, 0, 0, 0 :: real]\<rparr>) None"
  let ?v = "\<lparr>sdv_strength = 1 / 2, sdv_num_inference_steps = 2, sdv_guidance_scale = 1 :: real,
        sdv_batch_size = 1, sdv_output_type = ''latent''\<rparr>"
  let ?out' = "ImagePipelineOutput
      (OutPil \<lparr>t_shape = [1, 3, 1, 1], t_dtype = Float32, t_vals = [0, 0, 0 :: real]\<rparr>)"
  let ?c = "\<lparr>cmv_num_inference_steps = Some 2, cmv_batch_size = 1, cmv_output_type = ''pil''\<rparr>"
  have ok: "snd (snd (sd_call (stub_sd_pipe 2) [] ?a)) = Inr (?out, ?v)"
    by code_simp
  have ok': "snd (snd (cm_call (stub_cm_pipe 3) [] ?b)) = Inr (?out', ?c)"
    by code_simp
  show ?thesis
    using call_parameters_after_validation
        [where p = "stub_sd_pipe 2" and w = "[]" and a = ?a and out = ?out and v' = ?v
           and q = "stub_cm_pipe 3" and u = "[]" and b = ?b and out' = ?out' and c' = ?c]
      ok ok'
    by simp
qed

text \<open>
  The step count validated at entry is not what the later phases see: 4 steps with
  strength 1/2 leave \<^verbatim>\<open>num_inference_steps = 2\<close> in the image2image pipeline, and the
  default of 1 step with two explicit timesteps leaves 2 in the consistency pipeline.
\<close>

theorem step_count_rebound_counterexample:
  "sda_num_inference_steps (stub_sd_args\<lparr>sda_guidance_scale := 1\<rparr>) = 4
   \<and> snd (snd (sd_call (stub_sd_pipe 2) [] (stub_sd_args\<lparr>sda_guidance_scale := 1\<rparr>)))
     = Inr (StableDiffusionPipelineOutput
             (OutPd \<lparr>t_shape = [1, 4, 1, 1], t_dtype = Float32, t_vals = [0, 0, 0, 0]\<rparr>) None,
            \<lparr>sdv_strength = 1 / 2, sdv_num_inference_steps = 2, sdv_guidance_scale = 1,
              sdv_batch_size = 1, sdv_output_type = ''latent''\<rparr>)
   \<and> cma_num_inference_steps (stub_cm_args\<lparr>cma_timesteps := Some [22, 0]\<rparr>) = Some 1
   \<and> snd (snd (cm_call (stub_cm_pipe 3) [] (stub_cm_args\<lparr>cma_timesteps := Some [22, 0]\<rparr>)))
     = Inr (ImagePipelineOutput
             (OutPil \<lparr>t_shape = [1, 3, 1, 1], t_dtype = Float32, t_vals = [0, 0, 0]\<rparr>),
            \<lparr>cmv_num_inference_steps = Some 2, cmv_batch_size = 1, cmv_output_type = ''pil''\<rparr>)"
  by code_simp

end
